theory Spec2Isabelle
  imports Complex_Main
begin

section \<open>Readiness scanner: scoring and signal decision\<close>

text \<open>
  A shallow embedding of \<^verbatim>\<open>stock_readiness_scanner3.py\<close>. Python floats are embedded as
  follows: a finite float is its exact real value and arithmetic on finite floats is exact
  real arithmetic (no rounding error, no overflow); the IEEE special values that the code
  tests for or produces (\<^verbatim>\<open>nan\<close>, \<^verbatim>\<open>inf\<close>) are separate constructors
  of \<open>pyfloat\<close>; zero carries no sign. A series element that is either a finite number
  or \<^verbatim>\<open>nan\<close> is a \<open>real option\<close>. Labels are the strings of the source.

  The dip detector is the exception: its flag compares a quotient with two thresholds and
  its result carries that quotient rounded to four decimals, so the last bit of the
  quotient decides both. There the subtraction and the division are rounded to binary64
  (\<open>float64\<close>), and the thresholds are the doubles that the literals denote.
\<close>

subsection \<open>Configuration constants\<close>

definition EMA_FAST :: nat where "EMA_FAST = 20"
definition EMA_SLOW :: nat where "EMA_SLOW = 50"
definition RSI_PERIOD :: nat where "RSI_PERIOD = 14"
definition OBV_LOOKBACK :: nat where "OBV_LOOKBACK = 14"
definition VOLUME_SPIKE_MULT :: real where "VOLUME_SPIKE_MULT = 1.5"
definition INST_FLOW_WEIGHT :: real where "INST_FLOW_WEIGHT = 0.10"
definition MTF_TIMEFRAMES :: "string list" where "MTF_TIMEFRAMES = [''1d'', ''4h'', ''1h'']"
definition MTF_CONFIRM_THRESHOLD :: nat where "MTF_CONFIRM_THRESHOLD = 2"
definition MTF_POSITIVE_PRICE_SCORE :: real where "MTF_POSITIVE_PRICE_SCORE = 60.0"
definition BTD_LOOKBACK_DAYS :: nat where "BTD_LOOKBACK_DAYS = 20"
definition BTD_REQUIRE_DAILY_UPTREND :: bool where "BTD_REQUIRE_DAILY_UPTREND = True"

subsection \<open>Floats\<close>

datatype pyfloat = Fin real | PInf | NInf | NaN

text \<open>\<^verbatim>\<open>np.isfinite\<close>.\<close>

fun isfinite :: "pyfloat \<Rightarrow> bool" where
  "isfinite (Fin _) = True"
| "isfinite _ = False"

text \<open>\<^verbatim>\<open>np.isnan\<close>.\<close>

fun isnan :: "pyfloat \<Rightarrow> bool" where
  "isnan NaN = True"
| "isnan _ = False"

text \<open>A series element (finite or \<^verbatim>\<open>nan\<close>) read as a float.\<close>

fun of_opt :: "real option \<Rightarrow> pyfloat" where
  "of_opt None = NaN"
| "of_opt (Some x) = Fin x"

text \<open>
  Element-wise float arithmetic of numpy and pandas: a division by zero raises nothing, it
  gives \<^verbatim>\<open>inf\<close> (or \<^verbatim>\<open>nan\<close> for \<^verbatim>\<open>0/0\<close>).
\<close>

fun fadd :: "pyfloat \<Rightarrow> pyfloat \<Rightarrow> pyfloat" where
  "fadd NaN _ = NaN"
| "fadd _ NaN = NaN"
| "fadd (Fin a) (Fin b) = Fin (a + b)"
| "fadd PInf NInf = NaN"
| "fadd NInf PInf = NaN"
| "fadd PInf _ = PInf"
| "fadd _ PInf = PInf"
| "fadd NInf _ = NInf"
| "fadd _ NInf = NInf"

fun fneg :: "pyfloat \<Rightarrow> pyfloat" where
  "fneg (Fin a) = Fin (- a)"
| "fneg PInf = NInf"
| "fneg NInf = PInf"
| "fneg NaN = NaN"

definition fsub :: "pyfloat \<Rightarrow> pyfloat \<Rightarrow> pyfloat" where
  "fsub a b = fadd a (fneg b)"

fun fdiv :: "pyfloat \<Rightarrow> pyfloat \<Rightarrow> pyfloat" where
  "fdiv NaN _ = NaN"
| "fdiv _ NaN = NaN"
| "fdiv (Fin a) (Fin b) =
     (if b = 0 then (if a = 0 then NaN else if 0 < a then PInf else NInf)
      else Fin (a / b))"
| "fdiv (Fin a) PInf = Fin 0"
| "fdiv (Fin a) NInf = Fin 0"
| "fdiv PInf (Fin b) = (if 0 \<le> b then PInf else NInf)"
| "fdiv NInf (Fin b) = (if 0 \<le> b then NInf else PInf)"
| "fdiv PInf PInf = NaN"
| "fdiv PInf NInf = NaN"
| "fdiv NInf PInf = NaN"
| "fdiv NInf NInf = NaN"

text \<open>Python's \<^verbatim>\<open>a > b\<close> on floats: false as soon as one side is \<^verbatim>\<open>nan\<close>.\<close>

fun fgt :: "pyfloat \<Rightarrow> pyfloat \<Rightarrow> bool" where
  "fgt NaN _ = False"
| "fgt _ NaN = False"
| "fgt (Fin a) (Fin b) = (b < a)"
| "fgt PInf PInf = False"
| "fgt PInf _ = True"
| "fgt _ PInf = False"
| "fgt NInf _ = False"
| "fgt _ NInf = True"

text \<open>
  Python's \<^verbatim>\<open>round(x, n)\<close> on a float: the multiple of \<open>10\<^sup>-\<^sup>n\<close> nearest to the exact
  value of \<open>x\<close>, a tie going to the even one. The result is that decimal; Python holds
  the double nearest to it.
\<close>

definition round_half_even :: "real \<Rightarrow> int" where
  "round_half_even y =
     (let f = \<lfloor>y\<rfloor>; d = y - of_int f
      in if d < 1/2 then f else if 1/2 < d then f + 1 else if even f then f else f + 1)"

definition py_round :: "real \<Rightarrow> nat \<Rightarrow> real" where
  "py_round x n = of_int (round_half_even (x * 10 ^ n)) / 10 ^ n"

text \<open>
  Rounding to binary64, to nearest with ties to even: for \<open>2\<^sup>e \<le> |x| < 2\<^sup>e\<^sup>+\<^sup>1\<close> the
  result is the multiple of \<open>2\<^sup>e\<^sup>-\<^sup>5\<^sup>2\<close> nearest to \<open>x\<close>. This is what an IEEE addition,
  subtraction, multiplication or division returns for the exact result \<open>x\<close>, and the
  double that a decimal literal \<open>x\<close> denotes, as long as \<open>x\<close> is in the range of the
  normal numbers (no overflow, no subnormal result). \<open>bit_len n\<close> is the number of binary
  digits of \<open>n\<close>, and \<open>float_exponent a\<close> is the \<open>e\<close> above for \<open>a > 0\<close>.
\<close>

fun bit_len :: "nat \<Rightarrow> nat" where
  "bit_len n = (if n = 0 then 0 else Suc (bit_len (n div 2)))"

declare bit_len.simps [simp del]

definition float_exponent :: "real \<Rightarrow> int" where
  "float_exponent a =
     (if 1 \<le> a then int (bit_len (nat \<lfloor>a\<rfloor>)) - 1
      else - int (bit_len (nat (\<lceil>1 / a\<rceil> - 1))))"

definition float64 :: "real \<Rightarrow> real" where
  "float64 x =
     (if x = 0 then 0
      else
       (let a = \<bar>x\<bar>;
            e = float_exponent a;
            u = (if 52 \<le> e then 2 ^ nat (e - 52) else 1 / 2 ^ nat (52 - e))
        in sgn x * of_int (round_half_even (a / u)) * u))"

subsection \<open>Buy signal from the score\<close>

definition get_buy_signal_from_score :: "real \<Rightarrow> string" where
  "get_buy_signal_from_score score =
     (if score \<ge> 80 then ''STRONG BUY''
      else if score \<ge> 75 then ''BUY''
      else if score \<ge> 65 then ''WATCHLIST''
      else ''NO TRADE'')"

text \<open>The \<^verbatim>\<open>signal_strength\<close> entry of the record (\<^verbatim>\<open>analyze_ticker\<close>).\<close>

definition signal_strength :: "real \<Rightarrow> string" where
  "signal_strength final_score =
     (if final_score \<ge> 80 then ''High''
      else if final_score \<ge> 75 then ''Medium''
      else if final_score \<ge> 65 then ''Low''
      else ''None'')"

text \<open>
  The refinement of the buy signal with the multi-timeframe confirmation and the
  buy-the-dip flag (\<^verbatim>\<open>analyze_ticker\<close>, the statement after
  \<^verbatim>\<open>buy_signal = get_buy_signal_from_score(final_score)\<close>), branch for branch.
\<close>

definition refine_buy_signal :: "string \<Rightarrow> bool \<Rightarrow> bool \<Rightarrow> real \<Rightarrow> string" where
  "refine_buy_signal buy_signal mtf_confirm btd_flag final_score =
     (if buy_signal \<in> {''STRONG BUY'', ''BUY''} then
        (if \<not> mtf_confirm then
           (if buy_signal = ''STRONG BUY'' then
              (if \<not> mtf_confirm then
                 (if btd_flag \<and> final_score \<ge> 70 then ''BUY (BTD)'' else ''WATCHLIST'')
               else buy_signal)
            else
              (if btd_flag \<and> final_score \<ge> 70 then ''BUY (BTD)'' else ''WATCHLIST''))
         else buy_signal)
      else
        (if btd_flag \<and> final_score \<ge> 70 then ''BUY (BTD)''
         else if btd_flag \<and> final_score \<ge> 65 then ''WATCHLIST (BTD)''
         else buy_signal))"

definition decide_buy_signal :: "real \<Rightarrow> bool \<Rightarrow> bool \<Rightarrow> string" where
  "decide_buy_signal final_score mtf_confirm btd_flag =
     refine_buy_signal (get_buy_signal_from_score final_score) mtf_confirm btd_flag final_score"

subsection \<open>Price history and indicators\<close>

text \<open>
  Exceptions are values: \<open>Exn m\<close> is a raised exception whose \<^verbatim>\<open>str(e)\<close> is \<open>m\<close>,
  and a computation that can raise returns \<open>exn + 'a\<close>.
\<close>

datatype exn = Exn string

text \<open>
  A price history as \<^verbatim>\<open>get_history\<close> returns it: rows in time order, none with a
  missing close (\<^verbatim>\<open>dropna(subset=['Close'])\<close>). A low can be \<^verbatim>\<open>nan\<close>; volumes
  are whole numbers. The columns \<^verbatim>\<open>Low\<close> and \<^verbatim>\<open>Volume\<close> may be absent altogether.
\<close>

record bar =
  Close :: real
  Low :: "real option"
  Volume :: int

record frame =
  has_Low :: bool
  has_Volume :: bool
  bars :: "bar list"

text \<open>\<^verbatim>\<open>xs.iloc[-n:]\<close>: the last \<open>n\<close> elements, all of them when there are fewer.\<close>

definition last_n :: "nat \<Rightarrow> 'a list \<Rightarrow> 'a list" where
  "last_n n xs = drop (length xs - n) xs"

text \<open>\<^verbatim>\<open>series.ewm(span=span, adjust=False).mean()\<close>.\<close>

fun ewm_from :: "real \<Rightarrow> real \<Rightarrow> real list \<Rightarrow> real list" where
  "ewm_from \<alpha> y [] = []"
| "ewm_from \<alpha> y (x # xs) = (let y' = (1 - \<alpha>) * y + \<alpha> * x in y' # ewm_from \<alpha> y' xs)"

definition ema :: "real list \<Rightarrow> nat \<Rightarrow> real list" where
  "ema series spn =
     (case series of [] \<Rightarrow> [] | x # xs \<Rightarrow> x # ewm_from (2 / (real spn + 1)) x xs)"

text \<open>\<^verbatim>\<open>series.diff()\<close>: the first element has no predecessor and is \<^verbatim>\<open>nan\<close>.\<close>

definition diff :: "real list \<Rightarrow> real option list" where
  "diff series =
     (case series of [] \<Rightarrow> [] | x # xs \<Rightarrow> None # map2 (\<lambda>a b. Some (b - a)) series xs)"

text \<open>
  \<^verbatim>\<open>s.rolling(window, min_periods=mp).mean()\<close>: at each index the mean of the values
  present among the last \<open>window\<close> elements, \<^verbatim>\<open>nan\<close> when fewer than \<open>mp\<close> are present.
\<close>

definition window_mean :: "nat \<Rightarrow> real option list \<Rightarrow> real option" where
  "window_mean mp win =
     (let vals = List.map_filter (\<lambda>v. v) win
      in if vals \<noteq> [] \<and> mp \<le> length vals then Some (sum_list vals / real (length vals))
         else None)"

definition rolling_mean :: "nat \<Rightarrow> nat \<Rightarrow> real option list \<Rightarrow> real option list" where
  "rolling_mean window mp xs =
     map (\<lambda>i. window_mean mp (last_n window (take (Suc i) xs))) [0..<length xs]"

text \<open>\<^verbatim>\<open>rs = ma_up / ma_down\<close> and \<^verbatim>\<open>100 - (100 / (1 + rs))\<close>, element by element.\<close>

definition rsi_of_averages :: "real option \<Rightarrow> real option \<Rightarrow> pyfloat" where
  "rsi_of_averages ma_up ma_down =
     (let rs = fdiv (of_opt ma_up) (of_opt ma_down)
      in fsub (Fin 100) (fdiv (Fin 100) (fadd (Fin 1) rs)))"

text \<open>
  \<^verbatim>\<open>rsi\<close>. Its two rolling averages, \<^verbatim>\<open>ma_up\<close> of the positive and
  \<^verbatim>\<open>ma_down\<close> of the negative deltas, are constants of their own, so that statements
  can refer to them.
\<close>

definition ma_up :: "real list \<Rightarrow> nat \<Rightarrow> real option list" where
  "ma_up series period =
     (let delta = diff series;
          up = map (map_option (\<lambda>d. max d 0)) delta
      in rolling_mean period period up)"

definition ma_down :: "real list \<Rightarrow> nat \<Rightarrow> real option list" where
  "ma_down series period =
     (let delta = diff series;
          down = map (map_option (\<lambda>d. -1 * min d 0)) delta
      in rolling_mean period period down)"

definition rsi :: "real list \<Rightarrow> nat \<Rightarrow> pyfloat list" where
  "rsi series period = map2 rsi_of_averages (ma_up series period) (ma_down series period)"

text \<open>
  \<^verbatim>\<open>compute_obv\<close>. On an empty frame the source builds a one-element series over an
  empty index, which pandas refuses.
\<close>

fun obv_from :: "bool \<Rightarrow> int \<Rightarrow> bar \<Rightarrow> bar list \<Rightarrow> int list" where
  "obv_from hv acc prev [] = []"
| "obv_from hv acc prev (b # bs) =
     (let acc' =
        (if Close b > Close prev then (if hv then acc + Volume b else acc)
         else if Close b < Close prev then (if hv then acc - Volume b else acc)
         else acc)
      in acc' # obv_from hv acc' b bs)"

definition compute_obv :: "frame \<Rightarrow> exn + int list" where
  "compute_obv df =
     (case bars df of
        [] \<Rightarrow> Inl (Exn ''Length of values (1) does not match length of index (0)'')
      | b # bs \<Rightarrow> Inr (0 # obv_from (has_Volume df) 0 b bs))"

text \<open>\<^verbatim>\<open>np.polyfit(x, y, 1)[0]\<close> with \<^verbatim>\<open>x = np.arange(len(y))\<close>: the slope of the
  least-squares line through the points \<open>(i, y\<^sub>i)\<close>.\<close>

definition polyfit_slope :: "real list \<Rightarrow> real" where
  "polyfit_slope y =
     (let n = real (length y);
          x = map real [0..<length y];
          sx = sum_list x;
          sy = sum_list y;
          sxy = sum_list (map2 (*) x y);
          sxx = sum_list (map (\<lambda>v. v * v) x)
      in (n * sxy - sx * sy) / (n * sxx - sx * sx))"

text \<open>
  The technical metrics bundle. The flags are the integers that \<^verbatim>\<open>int(...)\<close> stores;
  the field \<open>tech_rsi\<close> is the entry \<^verbatim>\<open>tech['rsi']\<close>. An empty frame makes the first
  \<^verbatim>\<open>iloc[-1]\<close> raise. The values of \<^verbatim>\<open>obv\<close> are integers, so the test
  \<^verbatim>\<open>np.all(np.isfinite(y))\<close> holds and only its first branch is modelled.
\<close>

record tech =
  last_close :: real
  ema_fast :: real
  ema_slow :: real
  ema_cross :: int
  price_above_ema_slow :: int
  tech_rsi :: pyfloat
  rsi_rising :: int
  higher_lows_3 :: int
  obv_latest :: real
  obv_slope :: real
  obv_slope_pos :: int
  avg_vol_30 :: real
  today_vol :: real
  vol_spike_up :: int

definition compute_technical_metrics_from_hist :: "frame \<Rightarrow> exn + tech" where
  "compute_technical_metrics_from_hist hist =
     (let close = map Close (bars hist);
          low = (if has_Low hist then map Low (bars hist) else map Some close);
          vol = (if has_Volume hist then map Volume (bars hist)
                 else replicate (length (bars hist)) 0)
      in if close = [] then Inl (Exn ''single positional indexer is out-of-bounds'')
         else
          (let t_last_close = last close;
               t_ema_fast = last (ema close EMA_FAST);
               t_ema_slow = last (ema close EMA_SLOW);
               t_ema_cross = (of_bool (t_ema_fast > t_ema_slow) :: int);
               t_price_above = (of_bool (last close > t_ema_slow) :: int);
               r = rsi close RSI_PERIOD;
               t_rsi = (if \<not> list_all isnan r then last r else NaN);
               t_rsi_rising =
                 (if length r \<ge> 3 then of_bool (fgt (last r) (r ! (length r - 3))) else 0 :: int);
               lows = last_n 5 (List.map_filter (\<lambda>v. v) low);
               t_higher_lows =
                 (of_bool (length lows \<ge> 3
                    \<and> lows ! (length lows - 1) > lows ! (length lows - 2)
                    \<and> lows ! (length lows - 2) > lows ! (length lows - 3)) :: int)
           in case compute_obv hist of
                Inl e \<Rightarrow> Inl e
              | Inr obv \<Rightarrow>
                 (let (t_obv_slope, t_obv_slope_pos) =
                        (if length obv \<ge> OBV_LOOKBACK then
                           (let m = polyfit_slope (map real_of_int (last_n OBV_LOOKBACK obv))
                            in (m, (of_bool (m > 0) :: int)))
                         else (0.0, 0));
                      avg30 =
                        (if length vol \<ge> 5
                         then last (rolling_mean 30 5 (map (\<lambda>v. Some (real_of_int v)) vol))
                         else if length vol > 0
                         then Some (sum_list (map real_of_int vol) / real (length vol))
                         else Some 0);
                      t_avg_vol_30 = (case avg30 of Some a \<Rightarrow> a | None \<Rightarrow> 0.0);
                      t_today_vol = (if length vol > 0 then real_of_int (last vol) else 0.0);
                      today_up =
                        (if length close \<ge> 2
                         then of_bool (last close > close ! (length close - 2)) else 0 :: int);
                      t_vol_spike_up =
                        (of_bool (t_today_vol > VOLUME_SPIKE_MULT * t_avg_vol_30 \<and> today_up \<noteq> 0)
                          :: int)
                  in Inr \<lparr>last_close = t_last_close, ema_fast = t_ema_fast,
                          ema_slow = t_ema_slow, ema_cross = t_ema_cross,
                          price_above_ema_slow = t_price_above, tech_rsi = t_rsi,
                          rsi_rising = t_rsi_rising, higher_lows_3 = t_higher_lows,
                          obv_latest = real_of_int (last obv), obv_slope = t_obv_slope,
                          obv_slope_pos = t_obv_slope_pos, avg_vol_30 = t_avg_vol_30,
                          today_vol = t_today_vol, vol_spike_up = t_vol_spike_up\<rparr>)))"

subsection \<open>Option flow\<close>

text \<open>
  One row of an option chain: volume and open interest, either of which can be
  \<^verbatim>\<open>nan\<close>; the values present are whole numbers.
\<close>

record option_row =
  volume :: "int option"
  openInterest :: "int option"

record option_chain =
  calls :: "option_row list"
  puts :: "option_row list"

record opt =
  opt_nearest_expiry :: "string option"
  call_vol_sum :: pyfloat
  put_vol_sum :: pyfloat
  call_oi_sum :: pyfloat
  put_oi_sum :: pyfloat
  call_put_vol_ratio :: pyfloat
  call_put_oi_ratio :: pyfloat

text \<open>\<^verbatim>\<open>safe_div(a, b)\<close> on two integers, with the default \<^verbatim>\<open>np.nan\<close>.\<close>

definition safe_div :: "int \<Rightarrow> int \<Rightarrow> pyfloat" where
  "safe_div a b = (if b \<noteq> 0 then Fin (real_of_int a / real_of_int b) else NaN)"

text \<open>\<^verbatim>\<open>int(col.dropna().sum()) if not rows.empty else 0\<close>.\<close>

definition column_sum :: "(option_row \<Rightarrow> int option) \<Rightarrow> option_row list \<Rightarrow> int" where
  "column_sum col rows = (if rows \<noteq> [] then sum_list (List.map_filter col rows) else 0)"

text \<open>
  \<^verbatim>\<open>compute_options_metrics\<close>. Its two provider calls are the arguments: the list of
  expiries (\<^verbatim>\<open>t.options\<close>) and the chain of the nearest one
  (\<^verbatim>\<open>t.option_chain(ne)\<close>); either can raise, and the function catches it.
\<close>

definition compute_options_metrics :: "exn + string list \<Rightarrow> exn + option_chain \<Rightarrow> opt" where
  "compute_options_metrics exps_res chain_res =
     (let res = \<lparr>opt_nearest_expiry = None, call_vol_sum = NaN, put_vol_sum = NaN,
                 call_oi_sum = NaN, put_oi_sum = NaN, call_put_vol_ratio = NaN,
                 call_put_oi_ratio = NaN\<rparr>
      in case exps_res of
           Inl e \<Rightarrow> res
         | Inr exps \<Rightarrow>
            (case exps of
               [] \<Rightarrow> res
             | ne # rest \<Rightarrow>
                (case chain_res of
                   Inl e \<Rightarrow> res
                 | Inr chain \<Rightarrow>
                    (let cv = column_sum volume (calls chain);
                         pv = column_sum volume (puts chain);
                         coi = column_sum openInterest (calls chain);
                         poi = column_sum openInterest (puts chain)
                     in \<lparr>opt_nearest_expiry = Some ne,
                         call_vol_sum = Fin (real_of_int cv),
                         put_vol_sum = Fin (real_of_int pv),
                         call_oi_sum = Fin (real_of_int coi),
                         put_oi_sum = Fin (real_of_int poi),
                         call_put_vol_ratio = safe_div cv pv,
                         call_put_oi_ratio = safe_div coi poi\<rparr>))))"

subsection \<open>Scoring functions\<close>

text \<open>The RSI term of \<^verbatim>\<open>score_price_momentum_from_tech\<close>: \<^verbatim>\<open>r_score\<close> from
  \<^verbatim>\<open>tech['rsi']\<close> and \<^verbatim>\<open>tech['rsi_rising']\<close>.\<close>

definition rsi_score :: "pyfloat \<Rightarrow> int \<Rightarrow> real" where
  "rsi_score r rising =
     (case r of
        Fin r \<Rightarrow>
          (let r_score =
                 (if r < 30 then 0.0
                  else if r > 80 then 0.2
                  else max 0.0 (1.0 - \<bar>r - 60\<bar> / 30.0))
           in if rising \<noteq> 0 then min 1.0 (r_score * 1.2) else r_score)
      | _ \<Rightarrow> 0.5)"

definition score_price_momentum_from_tech :: "tech \<Rightarrow> real" where
  "score_price_momentum_from_tech t =
     (let w_ema = 0.35; w_price = 0.25; w_rsi = 0.20; w_hl = 0.20;
          score = 0.0;
          score = score + w_ema * (if ema_cross t = 1 then 1.0 else 0.0);
          score = score + w_price * (if price_above_ema_slow t = 1 then 1.0 else 0.0);
          r_score = rsi_score (tech_rsi t) (rsi_rising t);
          score = score + w_rsi * r_score;
          score = score + w_hl * (if higher_lows_3 t = 1 then 1.0 else 0.0)
      in score * 100.0)"

text \<open>The mapping of a call/put ratio: \<^verbatim>\<open>max(0.0, min(1.0, ratio/2.0))\<close> when it is
  finite, the neutral 0.5 otherwise.\<close>

definition ratio_score :: "pyfloat \<Rightarrow> real" where
  "ratio_score ratio =
     (case ratio of Fin c \<Rightarrow> max 0.0 (min 1.0 (c / 2.0)) | _ \<Rightarrow> 0.5)"

definition score_volume_flow_from_tech_opt :: "tech \<Rightarrow> opt \<Rightarrow> string \<Rightarrow> real" where
  "score_volume_flow_from_tech_opt t ops asset_class =
     (let w_vol_spike = 0.30; w_obv = 0.30; w_cp_vol = 0.20; w_cp_oi = 0.20;
          s = 0.0;
          s = s + w_vol_spike * (if vol_spike_up t = 1 then 1.0 else 0.0);
          s = s + w_obv * (if obv_slope_pos t = 1 then 1.0 else 0.0);
          cpv = call_put_vol_ratio ops;
          cpoi = call_put_oi_ratio ops;
          s = (if asset_class \<in> set [''INDEX'', ''CURRENCY'', ''COMMODITY'', ''CRYPTOCURRENCY'']
               then s + w_cp_vol * 0.5 + w_cp_oi * 0.5
               else s + w_cp_vol * ratio_score cpv + w_cp_oi * ratio_score cpoi);
          total = w_vol_spike + w_obv + w_cp_vol + w_cp_oi
      in s / total * 100.0)"

text \<open>
  What \<^verbatim>\<open>score_fundamentals\<close> reads from the provider. A field of \<^verbatim>\<open>info\<close> is
  missing (the \<^verbatim>\<open>get\<close> default, \<^verbatim>\<open>nan\<close>, applies), a number, or a value that is
  not a number (\<^verbatim>\<open>None\<close>), on which \<^verbatim>\<open>np.isfinite\<close> raises. \<open>quarterly\<close> is the
  column \<^verbatim>\<open>Earnings\<close> after \<^verbatim>\<open>dropna()\<close>, or \<open>None\<close> when the lookup raised or there
  is no such column.
\<close>

datatype info_field = Missing | Number pyfloat | NotANumber

record fundamentals =
  quarterly :: "real list option"
  shortRatio :: info_field
  recommendationMean :: info_field

definition score_fundamentals :: "fundamentals \<Rightarrow> exn + real" where
  "score_fundamentals f =
     (let earnings_score =
            (case quarterly f of
               None \<Rightarrow> 0.5
             | Some vals \<Rightarrow>
                 (if length vals \<ge> 2 then
                    (let lst = vals ! (length vals - 1); prev = vals ! (length vals - 2)
                     in if prev \<noteq> 0 then
                          (let g = (lst - prev) / \<bar>prev\<bar> in max 0.0 (min 1.0 ((g + 1) / 2.0)))
                        else 0.5)
                  else 0.5))
      in case shortRatio f of
           NotANumber \<Rightarrow> Inl (Exn ''ufunc isfinite not supported for the input types'')
         | short_field \<Rightarrow>
            (let short_ratio = (case short_field of Number x \<Rightarrow> x | _ \<Rightarrow> NaN);
                 short_score =
                   (case short_ratio of
                      Fin sr \<Rightarrow> max 0.0 (min 1.0 (1.0 - (sr - 0.05) / 0.25))
                    | _ \<Rightarrow> 0.5)
             in case recommendationMean f of
                  NotANumber \<Rightarrow> Inl (Exn ''ufunc isfinite not supported for the input types'')
                | rec_field \<Rightarrow>
                   (let rec = (case rec_field of Number x \<Rightarrow> x | _ \<Rightarrow> NaN);
                        rec_score =
                          (case rec of
                             Fin rc \<Rightarrow> max 0.0 (min 1.0 ((5.0 - rc) / 4.0))
                           | _ \<Rightarrow> 0.5);
                        raw = 0.5 * earnings_score + 0.3 * rec_score + 0.2 * short_score
                    in Inr (max 0.0 (min 1.0 raw) * 100.0))))"

definition institutional_flow_proxy :: "tech \<Rightarrow> opt \<Rightarrow> real" where
  "institutional_flow_proxy t ops =
     (let cpv = call_put_vol_ratio ops;
          cpv_score = (case cpv of Fin c \<Rightarrow> max 0.0 (min 1.0 (c / 2.0)) | _ \<Rightarrow> 0.5);
          avg30 = avg_vol_30 t;
          today = today_vol t;
          vol_score =
            (if avg30 \<noteq> 0 \<and> avg30 > 0 then
               (let mult = today / avg30 in max 0.0 (min 1.0 ((mult - 1.0) / 2.0 + 0.5)))
             else 0.5);
          obv_pos = (if obv_slope_pos t = 1 then 1.0 else 0.0);
          w_opts = 0.4; w_vol = 0.4; w_obv = 0.2;
          raw = w_opts * cpv_score + w_vol * vol_score + w_obv * obv_pos
      in raw * 100.0)"

subsection \<open>Score blending\<close>

record score_cfg =
  price :: real
  flow :: real
  fund :: real

definition SCORES_CONFIG :: "(string \<times> score_cfg) list" where
  "SCORES_CONFIG =
     [(''EQUITY'', \<lparr>price = 0.40, flow = 0.35, fund = 0.25\<rparr>),
      (''ETF'', \<lparr>price = 0.45, flow = 0.45, fund = 0.10\<rparr>),
      (''INDEX'', \<lparr>price = 0.70, flow = 0.00, fund = 0.30\<rparr>),
      (''COMMODITY'', \<lparr>price = 0.80, flow = 0.20, fund = 0.00\<rparr>),
      (''CRYPTOCURRENCY'', \<lparr>price = 0.75, flow = 0.25, fund = 0.00\<rparr>),
      (''CURRENCY'', \<lparr>price = 0.80, flow = 0.20, fund = 0.00\<rparr>),
      (''UNKNOWN'', \<lparr>price = 0.40, flow = 0.35, fund = 0.25\<rparr>)]"

text \<open>\<^verbatim>\<open>SCORES_CONFIG.get(asset_class, SCORES_CONFIG['UNKNOWN'])\<close>. The key
  \<^verbatim>\<open>UNKNOWN\<close> is in the table, so the inner lookup never fails.\<close>

definition scores_config_get :: "string \<Rightarrow> score_cfg" where
  "scores_config_get asset_class =
     (case map_of SCORES_CONFIG asset_class of
        Some c \<Rightarrow> c
      | None \<Rightarrow> \<lparr>price = 0.40, flow = 0.35, fund = 0.25\<rparr>)"

text \<open>The weights of the blend (\<^verbatim>\<open>analyze_ticker\<close>): \<open>(p_w, f_w, fund_w, inst_w)\<close>.\<close>

definition blend_weights :: "string \<Rightarrow> real \<times> real \<times> real \<times> real" where
  "blend_weights asset_class =
     (let base_cfg = scores_config_get asset_class;
          base_price = price base_cfg;
          base_flow = flow base_cfg;
          base_fund = fund base_cfg;
          base_total = base_price + base_flow + base_fund;
          inst_w = INST_FLOW_WEIGHT;
          remaining = max 0.0 (1.0 - inst_w)
      in if base_total > 0 then
           ((base_price / base_total) * remaining,
            (base_flow / base_total) * remaining,
            (base_fund / base_total) * remaining,
            inst_w)
         else (remaining * 0.6, remaining * 0.4, 0.0, inst_w))"

text \<open>A sub-score that is \<^verbatim>\<open>nan\<close> (here \<open>None\<close>) enters the blend as 50.\<close>

definition neutral_if_nan :: "real option \<Rightarrow> real" where
  "neutral_if_nan v = (case v of Some x \<Rightarrow> x | None \<Rightarrow> 50.0)"

definition blend_final_score :: "string \<Rightarrow> real \<Rightarrow> real \<Rightarrow> real \<Rightarrow> real \<Rightarrow> real" where
  "blend_final_score asset_class price_sub flow_sub fund_val inst_val =
     (case blend_weights asset_class of
        (p_w, f_w, fund_w, inst_w) \<Rightarrow>
          p_w * price_sub + f_w * flow_sub + fund_w * fund_val + inst_w * inst_val)"

subsection \<open>Multi-timeframe confirmation and buy-the-dip\<close>

text \<open>
  \<^verbatim>\<open>compute_mtf_confirmation\<close>. \<open>fetch tf\<close> is the outcome of
  \<^verbatim>\<open>get_history(ticker, timeframe=tf)\<close>: a frame or a raised exception.
\<close>

fun mtf_loop ::
  "(string \<Rightarrow> exn + frame) \<Rightarrow> string list \<Rightarrow> nat \<Rightarrow> (string \<times> pyfloat) list
    \<Rightarrow> nat \<times> (string \<times> pyfloat) list" where
  "mtf_loop fetch [] positives details = (positives, details)"
| "mtf_loop fetch (tf # tfs) positives details =
     (case fetch tf of
        Inl e \<Rightarrow> mtf_loop fetch tfs positives (details @ [(tf, NaN)])
      | Inr hist \<Rightarrow>
         (case compute_technical_metrics_from_hist hist of
            Inl e \<Rightarrow> mtf_loop fetch tfs positives (details @ [(tf, NaN)])
          | Inr t \<Rightarrow>
             (let price_score = score_price_momentum_from_tech t
              in mtf_loop fetch tfs
                   (if price_score \<ge> MTF_POSITIVE_PRICE_SCORE then positives + 1 else positives)
                   (details @ [(tf, Fin price_score)]))))"

definition compute_mtf_confirmation ::
  "(string \<Rightarrow> exn + frame) \<Rightarrow> nat \<times> bool \<times> (string \<times> pyfloat) list" where
  "compute_mtf_confirmation fetch =
     (case mtf_loop fetch MTF_TIMEFRAMES 0 [] of
        (positives, details) \<Rightarrow> (positives, positives \<ge> MTF_CONFIRM_THRESHOLD, details))"

text \<open>The thresholds of the dip detector: the doubles of the literals 0.02 and 0.08.\<close>

definition BTD_MIN_PULLBACK :: real where "BTD_MIN_PULLBACK = float64 0.02"
definition BTD_MAX_PULLBACK :: real where "BTD_MAX_PULLBACK = float64 0.08"

text \<open>
  \<^verbatim>\<open>detect_buy_the_dip\<close>. The argument is the outcome of
  \<^verbatim>\<open>get_history(ticker, timeframe='1d')\<close>. In the second and third component of the
  result \<open>None\<close> is Python's \<^verbatim>\<open>None\<close> and \<open>Some NaN\<close> is \<^verbatim>\<open>np.nan\<close>. Only the fetch is
  inside the \<^verbatim>\<open>try\<close>: an exception of \<^verbatim>\<open>compute_technical_metrics_from_hist\<close>
  leaves the function. The pullback is the double that the code computes: the difference
  is rounded, then the quotient; \<^verbatim>\<open>round(pullback, 4)\<close> rounds the exact value of that
  double.
\<close>

definition detect_buy_the_dip ::
  "exn + frame \<Rightarrow> exn + (bool \<times> pyfloat option \<times> pyfloat option)" where
  "detect_buy_the_dip hist_res =
     (case hist_res of
        Inl e \<Rightarrow> Inr (False, Some NaN, Some NaN)
      | Inr hist \<Rightarrow>
         (case compute_technical_metrics_from_hist hist of
            Inl e \<Rightarrow> Inl e
          | Inr t \<Rightarrow>
             (if BTD_REQUIRE_DAILY_UPTREND
                 \<and> \<not> (ema_cross t = 1 \<and> price_above_ema_slow t = 1)
              then Inr (False, None, None)
              else
               (let close = map Close (bars hist);
                    look = (if length (bars hist) \<ge> BTD_LOOKBACK_DAYS
                            then last_n BTD_LOOKBACK_DAYS close else close);
                    recent_high = Max (set look);
                    pullback = (if recent_high > 0
                                then float64 (float64 (recent_high - last_close t) / recent_high)
                                else 0.0);
                    is_btd = (pullback \<ge> BTD_MIN_PULLBACK \<and> pullback \<le> BTD_MAX_PULLBACK)
                in Inr (is_btd, Some (Fin (py_round pullback 4)), Some (Fin recent_high))))))"

subsection \<open>Score history\<close>

text \<open>The history file: \<open>None\<close> while it does not exist, else its rows in order.\<close>

record history_row =
  h_datetime :: string
  h_ticker :: string
  h_score :: real
  h_signal :: string

type_synonym history = "history_row list option"

text \<open>\<^verbatim>\<open>append_history_row\<close>; \<open>now\<close> is the time stamp and \<open>failure\<close> the exception the
  write raises, if it does.\<close>

definition append_history_row ::
  "string \<Rightarrow> real \<Rightarrow> string \<Rightarrow> string \<Rightarrow> exn option \<Rightarrow> history \<Rightarrow> exn + history" where
  "append_history_row tkr score signal now failure h =
     (case failure of
        Some e \<Rightarrow> Inl e
      | None \<Rightarrow>
          Inr (Some ((case h of None \<Rightarrow> [] | Some rows \<Rightarrow> rows)
                     @ [\<lparr>h_datetime = now, h_ticker = tkr, h_score = score,
                          h_signal = signal\<rparr>])))"

text \<open>\<^verbatim>\<open>get_score_trend\<close> with \<^verbatim>\<open>lookback=3\<close>; \<open>read_failure\<close> is the exception
  reading the file raises, if it does.\<close>

definition get_score_trend :: "string \<Rightarrow> exn option \<Rightarrow> history \<Rightarrow> string" where
  "get_score_trend tkr read_failure h =
     (case h of
        None \<Rightarrow> ''N/A''
      | Some rows \<Rightarrow>
         (case read_failure of
            Some e \<Rightarrow> ''N/A''
          | None \<Rightarrow>
             (let df_t = last_n 3 (filter (\<lambda>r. h_ticker r = tkr) rows)
              in if length df_t < 2 then ''N/A''
                 else
                  (let prev_mean = sum_list (map h_score (butlast df_t))
                                     / real (length (butlast df_t));
                       lst = h_score (last df_t)
                   in if lst > prev_mean then ''RISING''
                      else if lst < prev_mean then ''FALLING''
                      else ''FLAT''))))"

subsection \<open>Full analysis per ticker\<close>

text \<open>
  Everything \<^verbatim>\<open>analyze_ticker\<close> obtains from outside while it analyses one ticker, one
  field per call. The outcome of \<^verbatim>\<open>detect_asset_class\<close> is a string (that function
  catches its own exceptions); every other call yields a value or raises.
\<close>

record world =
  w_asset_class :: string
  w_sector :: "exn + string"
  w_hist_daily :: "exn + frame"
  w_options :: "exn + string list"
  w_option_chain :: "exn + option_chain"
  w_fundamentals :: fundamentals
  w_mtf_hist :: "string \<Rightarrow> exn + frame"
  w_btd_hist :: "exn + frame"
  w_history_read :: "exn option"
  w_history_write :: "exn option"
  w_now :: string

text \<open>
  The entries that the single \<^verbatim>\<open>rec.update({...})\<close> at the end of the \<^verbatim>\<open>try\<close>
  block adds to the record, all at once.
\<close>

record scored =
  price_subscore :: real
  flow_subscore :: real
  fund_subscore :: real
  inst_flow_proxy :: real
  final_readiness_score :: real
  buy_signal :: string
  signal_strength_rec :: string
  score_trend :: string
  mtf_positive_count :: nat
  mtf_confirm :: bool
  mtf_details :: "(string \<times> pyfloat) list"
  buy_the_dip :: bool
  btd_pullback_pct :: "pyfloat option"
  btd_recent_high :: "pyfloat option"
  last_close_rec :: real
  avg_vol_30_rec :: real
  opt_nearest_expiry_rec :: "string option"
  call_put_vol_ratio_rec :: pyfloat

text \<open>
  The output record: a dictionary in the source, whose keys other than \<^verbatim>\<open>ticker\<close> may
  be absent (\<open>None\<close>).
\<close>

record rec =
  rec_ticker :: string
  rec_asset_class :: "string option"
  rec_sector :: "string option"
  rec_scores :: "scored option"
  rec_error :: "string option"

text \<open>
  The entries of the record from the sub-scores, the final score and the results of the
  confirmation engine and of the dip detector: the signal decision and the final
  \<^verbatim>\<open>rec.update\<close>.
\<close>

definition fill_scores ::
  "real \<Rightarrow> real \<Rightarrow> real \<Rightarrow> real \<Rightarrow> real \<Rightarrow> nat \<times> bool \<times> (string \<times> pyfloat) list
    \<Rightarrow> bool \<times> pyfloat option \<times> pyfloat option \<Rightarrow> string \<Rightarrow> tech \<Rightarrow> opt \<Rightarrow> scored" where
  "fill_scores price_sub flow_sub fund_val inst_val final_score mtf btd trend tech_daily ops =
     (case mtf of
        (mtf_count, mtf_ok, details) \<Rightarrow>
          (case btd of
             (btd_flag, btd_pullback, btd_high) \<Rightarrow>
               \<lparr>price_subscore = py_round price_sub 2,
                flow_subscore = py_round flow_sub 2,
                fund_subscore = py_round fund_val 2,
                inst_flow_proxy = py_round inst_val 2,
                final_readiness_score = py_round final_score 2,
                buy_signal = decide_buy_signal final_score mtf_ok btd_flag,
                signal_strength_rec = signal_strength final_score,
                score_trend = trend,
                mtf_positive_count = mtf_count,
                mtf_confirm = mtf_ok,
                mtf_details = details,
                buy_the_dip = btd_flag,
                btd_pullback_pct = btd_pullback,
                btd_recent_high = btd_high,
                last_close_rec = last_close tech_daily,
                avg_vol_30_rec = avg_vol_30 tech_daily,
                opt_nearest_expiry_rec = opt_nearest_expiry ops,
                call_put_vol_ratio_rec = call_put_vol_ratio ops\<rparr>))"

text \<open>The body of the \<^verbatim>\<open>try\<close> block from the daily history on.\<close>

definition score_ticker :: "world \<Rightarrow> string \<Rightarrow> string \<Rightarrow> history \<Rightarrow> exn + scored \<times> history" where
  "score_ticker w tkr ac h =
     (case w_hist_daily w of
        Inl e \<Rightarrow> Inl e
      | Inr hist_daily \<Rightarrow>
         (case compute_technical_metrics_from_hist hist_daily of
            Inl e \<Rightarrow> Inl e
          | Inr tech_daily \<Rightarrow>
             (let ops = compute_options_metrics (w_options w) (w_option_chain w);
                  price_sub = score_price_momentum_from_tech tech_daily;
                  flow_sub = score_volume_flow_from_tech_opt tech_daily ops ac;
                  fund_sub =
                    (if fund (scores_config_get ac) > 0 then
                       (case score_fundamentals (w_fundamentals w) of
                          Inl e \<Rightarrow> None
                        | Inr v \<Rightarrow> Some v)
                     else None);
                  inst_proxy =
                    (if INST_FLOW_WEIGHT > 0
                     then Some (institutional_flow_proxy tech_daily ops) else None);
                  fund_val = neutral_if_nan fund_sub;
                  inst_val = neutral_if_nan inst_proxy;
                  final_score = blend_final_score ac price_sub flow_sub fund_val inst_val;
                  mtf = compute_mtf_confirmation (w_mtf_hist w)
              in case detect_buy_the_dip (w_btd_hist w) of
                   Inl e \<Rightarrow> Inl e
                 | Inr btd \<Rightarrow>
                    (let signal = decide_buy_signal final_score (fst (snd mtf)) (fst btd);
                         trend = get_score_trend tkr (w_history_read w) h
                     in case append_history_row tkr final_score signal (w_now w)
                               (w_history_write w) h of
                          Inl e \<Rightarrow> Inl e
                        | Inr h' \<Rightarrow>
                            Inr (fill_scores price_sub flow_sub fund_val inst_val final_score
                                   mtf btd trend tech_daily ops, h')))))"

text \<open>
  \<^verbatim>\<open>analyze_ticker\<close>: the record and the history file afterwards. What the
  \<^verbatim>\<open>try\<close> block had stored when an exception reached the handler stays in the record.
\<close>

definition analyze_ticker :: "world \<Rightarrow> string \<Rightarrow> history \<Rightarrow> rec \<times> history" where
  "analyze_ticker w tkr h =
     (let rec0 = \<lparr>rec_ticker = tkr, rec_asset_class = None, rec_sector = None,
                  rec_scores = None, rec_error = None\<rparr>;
          ac = w_asset_class w;
          rec1 = rec0\<lparr>rec_asset_class := Some ac\<rparr>
      in case w_sector w of
           Inl (Exn m) \<Rightarrow> (rec1\<lparr>rec_error := Some m\<rparr>, h)
         | Inr sec \<Rightarrow>
            (let rec2 = rec1\<lparr>rec_sector := Some sec\<rparr>
             in case score_ticker w tkr ac h of
                  Inl (Exn m) \<Rightarrow> (rec2\<lparr>rec_error := Some m\<rparr>, h)
                | Inr (sc, h') \<Rightarrow> (rec2\<lparr>rec_scores := Some sc\<rparr>, h')))"

text \<open>
  The loop of \<^verbatim>\<open>run_and_save\<close> that builds \<^verbatim>\<open>rows\<close>: the tickers in order, each
  with the world its analysis meets, sharing the history file.
\<close>

fun analyze_rows :: "(string \<times> world) list \<Rightarrow> history \<Rightarrow> rec list \<times> history" where
  "analyze_rows [] h = ([], h)"
| "analyze_rows ((tkr, w) # rest) h =
     (case analyze_ticker w tkr h of
        (r, h') \<Rightarrow> (case analyze_rows rest h' of (rs, h'') \<Rightarrow> (r # rs, h'')))"

subsection \<open>Sample inputs\<close>

text \<open>Concrete inputs, used where a statement is evaluated on an example.\<close>

definition frame_of :: "(real \<times> int) list \<Rightarrow> frame" where
  "frame_of rows =
     \<lparr>has_Low = True, has_Volume = True,
      bars = map (\<lambda>(c, v). \<lparr>Close = c, Low = Some c, Volume = v\<rparr>) rows\<rparr>"

text \<open>Fifteen closes, each one above the one before: no delta is negative.\<close>

definition rising_frame :: frame where
  "rising_frame =
     frame_of [(1, 1000), (2, 1000), (3, 1000), (4, 1000), (5, 1000), (6, 1000), (7, 1000),
               (8, 1000), (9, 1000), (10, 1000), (11, 1000), (12, 1000), (13, 1000),
               (14, 1000), (15, 1000)]"

text \<open>Fifteen equal closes: every delta is zero.\<close>

definition flat_frame :: frame where
  "flat_frame =
     frame_of [(7, 1000), (7, 1000), (7, 1000), (7, 1000), (7, 1000), (7, 1000), (7, 1000),
               (7, 1000), (7, 1000), (7, 1000), (7, 1000), (7, 1000), (7, 1000), (7, 1000),
               (7, 1000)]"

text \<open>Three bars: a high of 110 and a close of 105 above both moving averages.\<close>

definition dip_frame :: frame where
  "dip_frame = frame_of [(100, 1000), (110, 1000), (105, 1000)]"




text \<open>The bundle that \<^verbatim>\<open>compute_technical_metrics_from_hist\<close> returns on \<open>dip_frame\<close>.\<close>

definition dip_tech :: tech where
  "dip_tech =
     \<lparr>last_close = 105, ema_fast = 44690 / 441, ema_slow = 261590 / 2601, ema_cross = 1,
      price_above_ema_slow = 1, tech_rsi = NaN, rsi_rising = 0, higher_lows_3 = 0,
      obv_latest = 0, obv_slope = 0, obv_slope_pos = 0, avg_vol_30 = 1000, today_vol = 1000,
      vol_spike_up = 0\<rparr>"

definition sample_chain :: option_chain where
  "sample_chain =
     \<lparr>calls = [\<lparr>volume = Some 2597, openInterest = Some 10\<rparr>],
      puts = [\<lparr>volume = Some 2000, openInterest = None\<rparr>]\<rparr>"

definition sample_fundamentals :: fundamentals where
  "sample_fundamentals =
     \<lparr>quarterly = Some [2, 3], shortRatio = Number (Fin 0.1), recommendationMean = Missing\<rparr>"

text \<open>
  A run in which every secondary fetch fails (all three confirmation timeframes and the
  history of the dip detector) and the daily history has three rising bars with a volume
  spike on the last.
\<close>

definition sample_world :: world where
  "sample_world =
     \<lparr>w_asset_class = ''COMMODITY'',
      w_sector = Inr ''Commodities'',
      w_hist_daily = Inr (frame_of [(100, 1), (101, 1), (102, 3)]),
      w_options = Inr [''2025-01-17''],
      w_option_chain = Inr sample_chain,
      w_fundamentals = sample_fundamentals,
      w_mtf_hist = (\<lambda>tf. Inl (Exn ''No history for GC=F'')),
      w_btd_hist = Inl (Exn ''No history for GC=F 1d''),
      w_history_read = None,
      w_history_write = None,
      w_now = ''2025-01-02T00:00:00''\<rparr>"

text \<open>The same run with the primary daily fetch raising.\<close>

definition failing_world :: world where
  "failing_world = sample_world\<lparr>w_hist_daily := Inl (Exn ''No history for GC=F 1d'')\<rparr>"

section \<open>Properties\<close>

subsection \<open>Signal decision\<close>

text \<open>
  C6. The base label is STRONG BUY exactly from 80 up, BUY exactly on [75, 80), WATCHLIST
  exactly on [65, 75) and NO TRADE exactly below 65; the signal strength is High, Medium,
  Low and None on the same bands. In particular 80.0 gives STRONG BUY and High, 79.999
  gives BUY and Medium, 75.0 gives BUY, and 64.999 gives NO TRADE and None.
\<close>

theorem buy_signal_bands:
  "(get_buy_signal_from_score s = ''STRONG BUY'') = (80 \<le> s)
   \<and> (get_buy_signal_from_score s = ''BUY'') = (75 \<le> s \<and> s < 80)
   \<and> (get_buy_signal_from_score s = ''WATCHLIST'') = (65 \<le> s \<and> s < 75)
   \<and> (get_buy_signal_from_score s = ''NO TRADE'') = (s < 65)
   \<and> (signal_strength s = ''High'') = (80 \<le> s)
   \<and> (signal_strength s = ''Medium'') = (75 \<le> s \<and> s < 80)
   \<and> (signal_strength s = ''Low'') = (65 \<le> s \<and> s < 75)
   \<and> (signal_strength s = ''None'') = (s < 65)
   \<and> get_buy_signal_from_score 80.0 = ''STRONG BUY'' \<and> signal_strength 80.0 = ''High''
   \<and> get_buy_signal_from_score 79.999 = ''BUY'' \<and> signal_strength 79.999 = ''Medium''
   \<and> get_buy_signal_from_score 75.0 = ''BUY''
   \<and> get_buy_signal_from_score 64.999 = ''NO TRADE'' \<and> signal_strength 64.999 = ''None''"
  by (simp add: get_buy_signal_from_score_def signal_strength_def)

text \<open>
  C1, as stated, fails: with a final score of 68 the base label is WATCHLIST, and with the
  buy-the-dip flag set the label of the record is WATCHLIST (BTD), not WATCHLIST. The
  \<^verbatim>\<open>else\<close> branch of the refinement handles every base label other than STRONG BUY
  and BUY, and its thresholds 70 and 65 lie inside the WATCHLIST band.
\<close>

theorem watchlist_relabelled_counterexample:
  "get_buy_signal_from_score 68 = ''WATCHLIST''
   \<and> decide_buy_signal 68 False True = ''WATCHLIST (BTD)''
   \<and> decide_buy_signal 68 False True \<noteq> ''WATCHLIST''"
  by (simp add: get_buy_signal_from_score_def decide_buy_signal_def refine_buy_signal_def)

text \<open>
  C1, amended. When the base label is WATCHLIST, the label stays WATCHLIST for both values
  of the confirmation as long as the buy-the-dip flag is false; with the flag true it
  becomes BUY (BTD) when the final score is at least 70 and WATCHLIST (BTD) below 70,
  again for both values of the confirmation.
\<close>

theorem watchlist_refinement:
  assumes "get_buy_signal_from_score s = ''WATCHLIST''"
  shows "decide_buy_signal s mtf btd =
     (if btd then (if 70 \<le> s then ''BUY (BTD)'' else ''WATCHLIST (BTD)'') else ''WATCHLIST'')"
  using assms
  by (simp add: get_buy_signal_from_score_def decide_buy_signal_def refine_buy_signal_def
      split: if_splits)

theorem watchlist_refinement_witness:
  "get_buy_signal_from_score 72 = ''WATCHLIST''
   \<and> decide_buy_signal 72 True True = ''BUY (BTD)''
   \<and> decide_buy_signal 66 True False = ''WATCHLIST''"
proof -
  have a: "get_buy_signal_from_score 72 = ''WATCHLIST''"
    and b: "get_buy_signal_from_score 66 = ''WATCHLIST''"
    by (simp_all add: get_buy_signal_from_score_def)
  show ?thesis
    using a watchlist_refinement [OF a, of True True] watchlist_refinement [OF b, of True False]
    by simp
qed

text \<open>
  C7. When the base label is STRONG BUY or BUY: without confirmation the label is
  BUY (BTD) if the buy-the-dip flag is true and the final score is at least 70, and
  WATCHLIST otherwise; with confirmation the base label is kept.
\<close>

theorem buy_refinement:
  assumes "get_buy_signal_from_score s = ''STRONG BUY'' \<or> get_buy_signal_from_score s = ''BUY''"
  shows "decide_buy_signal s mtf btd =
     (if mtf then get_buy_signal_from_score s
      else if btd \<and> 70 \<le> s then ''BUY (BTD)'' else ''WATCHLIST'')"
  using assms
  by (auto simp add: get_buy_signal_from_score_def decide_buy_signal_def refine_buy_signal_def
      split: if_splits)

theorem buy_refinement_witness:
  "get_buy_signal_from_score 77 = ''BUY''
   \<and> decide_buy_signal 77 False True = ''BUY (BTD)''
   \<and> decide_buy_signal 77 False False = ''WATCHLIST''
   \<and> decide_buy_signal 77 True False = ''BUY''"
proof -
  have a: "get_buy_signal_from_score 77 = ''BUY''"
    by (simp add: get_buy_signal_from_score_def)
  then have b: "get_buy_signal_from_score 77 = ''STRONG BUY'' \<or> get_buy_signal_from_score 77 = ''BUY''"
    by simp
  show ?thesis
    using a buy_refinement [OF b, of False True] buy_refinement [OF b, of False False]
      buy_refinement [OF b, of True False]
    by simp
qed

lemma py_round_just_below_80: "79.995 \<le> s \<Longrightarrow> s < 80 \<Longrightarrow> py_round s 2 = 80"
proof -
  assume a: "79.995 \<le> s" "s < 80"
  have f: "\<lfloor>s * 100\<rfloor> = 7999" using a by (simp add: floor_eq_iff)
  have e: "\<not> even (7999::int)" by simp
  show ?thesis using a f e by (simp add: py_round_def round_half_even_def Let_def)
qed

text \<open>
  C10. The record stores the final score rounded to two decimals, while the label and the
  signal strength come from the unrounded score: for every final score in [79.995, 80) the
  record shows 80.0 together with the signal strength Medium, and its label is the
  refinement of the base label BUY.
\<close>

theorem rounded_score_beside_unrounded_signal:
  assumes "79.995 \<le> s" and "s < 80"
  shows "final_readiness_score
           (fill_scores p f fu i s (n, mtf, ds) (btd, pb, rh) trend t ops) = 80.0
     \<and> get_buy_signal_from_score s = ''BUY''
     \<and> buy_signal (fill_scores p f fu i s (n, mtf, ds) (btd, pb, rh) trend t ops)
         = refine_buy_signal ''BUY'' mtf btd s
     \<and> signal_strength_rec
           (fill_scores p f fu i s (n, mtf, ds) (btd, pb, rh) trend t ops) = ''Medium''"
  using assms py_round_just_below_80 [OF assms]
  by (simp add: fill_scores_def decide_buy_signal_def get_buy_signal_from_score_def
      signal_strength_def)

lemma sample_world_run:
  "analyze_ticker sample_world ''GC=F'' None =
     (\<lparr>rec_ticker = ''GC=F'', rec_asset_class = Some ''COMMODITY'',
       rec_sector = Some ''Commodities'',
       rec_scores =
         Some \<lparr>price_subscore = 90, flow_subscore = 50, fund_subscore = 50,
               inst_flow_proxy = 61.97, final_readiness_score = 80,
               buy_signal = ''WATCHLIST'', signal_strength_rec = ''Medium'',
               score_trend = ''N/A'', mtf_positive_count = 0, mtf_confirm = False,
               mtf_details = [(''1d'', NaN), (''4h'', NaN), (''1h'', NaN)],
               buy_the_dip = False, btd_pullback_pct = Some NaN,
               btd_recent_high = Some NaN, last_close_rec = 102, avg_vol_30_rec = 5 / 3,
               opt_nearest_expiry_rec = Some ''2025-01-17'',
               call_put_vol_ratio_rec = Fin (2597 / 2000)\<rparr>,
       rec_error = None\<rparr>,
      Some [\<lparr>h_datetime = ''2025-01-02T00:00:00'', h_ticker = ''GC=F'',
              h_score = 79.997, h_signal = ''WATCHLIST''\<rparr>])"
  by code_simp

theorem rounded_score_beside_unrounded_signal_witness:
  "(79.995::real) \<le> 79.997 \<and> (79.997::real) < 80
   \<and> final_readiness_score
        (fill_scores 90 50 50 61.97 79.997 (0, False, []) (False, Some NaN, Some NaN) ''N/A''
           dip_tech (compute_options_metrics (Inr []) (Inr sample_chain))) = 80.0
   \<and> signal_strength_rec
        (fill_scores 90 50 50 61.97 79.997 (0, False, []) (False, Some NaN, Some NaN) ''N/A''
           dip_tech (compute_options_metrics (Inr []) (Inr sample_chain))) = ''Medium''
   \<and> get_buy_signal_from_score 79.997 = ''BUY''
   \<and> map_option final_readiness_score
         (rec_scores (fst (analyze_ticker sample_world ''GC=F'' None))) = Some 80.0
   \<and> map_option signal_strength_rec
         (rec_scores (fst (analyze_ticker sample_world ''GC=F'' None))) = Some ''Medium''
   \<and> map_option (map h_score) (snd (analyze_ticker sample_world ''GC=F'' None))
        = Some [79.997]"
proof -
  have a: "(79.995::real) \<le> 79.997" and b: "(79.997::real) < 80" by simp_all
  note t = rounded_score_beside_unrounded_signal [OF a b, of 90 50 50 "61.97" 0 False "[]" False
      "Some NaN" "Some NaN" "''N/A''" dip_tech "compute_options_metrics (Inr []) (Inr sample_chain)"]
  show ?thesis using a b t by (simp add: sample_world_run)
qed

subsection \<open>Score ranges and blend weights\<close>

lemma rsi_score_bounds: "0 \<le> rsi_score r k \<and> rsi_score r k \<le> 1"
  by (cases r) (auto simp add: rsi_score_def Let_def min_def max_def)

lemma ratio_score_bounds: "0 \<le> ratio_score r \<and> ratio_score r \<le> 1"
  by (cases r) (auto simp add: ratio_score_def)

lemma price_momentum_bounds:
  "0 \<le> score_price_momentum_from_tech t \<and> score_price_momentum_from_tech t \<le> 100"
  using rsi_score_bounds [of "tech_rsi t" "rsi_rising t"]
  by (simp add: score_price_momentum_from_tech_def Let_def)

lemma volume_flow_bounds:
  "0 \<le> score_volume_flow_from_tech_opt t ops ac
   \<and> score_volume_flow_from_tech_opt t ops ac \<le> 100"
  using ratio_score_bounds [of "call_put_vol_ratio ops"]
    ratio_score_bounds [of "call_put_oi_ratio ops"]
  by (simp add: score_volume_flow_from_tech_opt_def Let_def)

lemma fundamentals_bounds: "score_fundamentals f = Inr v \<Longrightarrow> 0 \<le> v \<and> v \<le> 100"
  by (auto simp add: score_fundamentals_def Let_def split: info_field.splits if_splits)

lemma institutional_bounds:
  "0 \<le> institutional_flow_proxy t ops \<and> institutional_flow_proxy t ops \<le> 100"
proof -
  define c where
    "c = (case call_put_vol_ratio ops of Fin c \<Rightarrow> max 0.0 (min 1.0 (c / 2.0)) | _ \<Rightarrow> (0.5::real))"
  define v where
    "v = (if avg_vol_30 t \<noteq> 0 \<and> avg_vol_30 t > 0 then
            (let mult = today_vol t / avg_vol_30 t in max 0.0 (min 1.0 ((mult - 1.0) / 2.0 + 0.5)))
          else (0.5::real))"
  define b where "b = (if obv_slope_pos t = 1 then 1.0 else (0.0::real))"
  have c: "0 \<le> c \<and> c \<le> 1" unfolding c_def by (cases "call_put_vol_ratio ops") auto
  have v: "0 \<le> v \<and> v \<le> 1" unfolding v_def Let_def by auto
  have b: "0 \<le> b \<and> b \<le> 1" unfolding b_def by auto
  have "institutional_flow_proxy t ops = (0.4 * c + 0.4 * v + 0.2 * b) * 100"
    by (simp add: institutional_flow_proxy_def Let_def c_def v_def b_def)
  then show ?thesis using c v b by simp
qed

lemma scores_config_cases:
  "scores_config_get ac \<in>
     {\<lparr>price = 0.40, flow = 0.35, fund = 0.25\<rparr>, \<lparr>price = 0.45, flow = 0.45, fund = 0.10\<rparr>,
      \<lparr>price = 0.70, flow = 0.00, fund = 0.30\<rparr>, \<lparr>price = 0.80, flow = 0.20, fund = 0.00\<rparr>,
      \<lparr>price = 0.75, flow = 0.25, fund = 0.00\<rparr>}"
  by (simp add: scores_config_get_def SCORES_CONFIG_def)

lemma base_total_one:
  "price (scores_config_get ac) + flow (scores_config_get ac) + fund (scores_config_get ac) = 1"
  using scores_config_cases [of ac] by auto

lemma base_nonneg:
  "0 \<le> price (scores_config_get ac) \<and> 0 \<le> flow (scores_config_get ac)
   \<and> 0 \<le> fund (scores_config_get ac)"
  using scores_config_cases [of ac] by auto

lemma blend_weights_eq:
  "blend_weights ac =
     (price (scores_config_get ac) * 0.9, flow (scores_config_get ac) * 0.9,
      fund (scores_config_get ac) * 0.9, 0.1)"
  by (simp add: blend_weights_def Let_def base_total_one INST_FLOW_WEIGHT_def)

lemma blend_final_score_bounds:
  assumes "0 \<le> p \<and> p \<le> 100" "0 \<le> f \<and> f \<le> 100" "0 \<le> fu \<and> fu \<le> 100"
    "0 \<le> i \<and> i \<le> 100"
  shows "0 \<le> blend_final_score ac p f fu i \<and> blend_final_score ac p f fu i \<le> 100"
proof -
  define a where "a = price (scores_config_get ac)"
  define b where "b = flow (scores_config_get ac)"
  define c where "c = fund (scores_config_get ac)"
  have s: "a + b + c = 1" and n: "0 \<le> a" "0 \<le> b" "0 \<le> c"
    using base_total_one [of ac] base_nonneg [of ac] by (simp_all add: a_def b_def c_def)
  have e: "blend_final_score ac p f fu i = 0.9 * (a * p + b * f + c * fu) + 0.1 * i"
    by (simp add: blend_final_score_def blend_weights_eq a_def b_def c_def algebra_simps)
  have lo: "0 \<le> a * p + b * f + c * fu" using n assms by simp
  have "a * p \<le> a * 100" "b * f \<le> b * 100" "c * fu \<le> c * 100"
    using n assms by (simp_all add: mult_left_mono)
  then have "a * p + b * f + c * fu \<le> (a + b + c) * 100" by (simp add: algebra_simps)
  then have hi: "a * p + b * f + c * fu \<le> 100" using s by simp
  define X where "X = a * p + b * f + c * fu"
  have "0 \<le> 0.9 * X + 0.1 * i \<and> 0.9 * X + 0.1 * i \<le> 100"
    using lo hi assms(4) unfolding X_def [symmetric] by linarith
  then show ?thesis unfolding e X_def .
qed

text \<open>
  C5. For every asset class (a class outside the table gets the weights of UNKNOWN, and the
  base weights of every entry sum to 1, so the rescaling branch is always the one taken)
  the rescaled price, flow and fundamentals weights sum to \<open>1 - INST_FLOW_WEIGHT\<close>, and the
  institutional weight is \<open>INST_FLOW_WEIGHT = 0.10\<close>. The equality is exact in real
  arithmetic.
\<close>

theorem blend_weights_sum:
  "(case blend_weights ac of
      (p_w, f_w, fund_w, inst_w) \<Rightarrow>
        p_w + f_w + fund_w = 1 - INST_FLOW_WEIGHT \<and> inst_w = INST_FLOW_WEIGHT \<and> inst_w = 0.10)"
proof -
  have "price (scores_config_get ac) * 0.9 + flow (scores_config_get ac) * 0.9
          + fund (scores_config_get ac) * 0.9
        = (price (scores_config_get ac) + flow (scores_config_get ac)
            + fund (scores_config_get ac)) * 0.9"
    by (simp only: distrib_right)
  also have "\<dots> = 0.9" by (simp only: base_total_one mult_1)
  finally show ?thesis by (simp add: blend_weights_eq INST_FLOW_WEIGHT_def)
qed

text \<open>
  C4. The price momentum, volume/flow and institutional proxy scores lie in [0, 100] for
  every input, the fundamentals score does whenever the scorer returns one, and the
  blended final score lies in [0, 100] for every asset class whenever the four blended
  values do.
\<close>

theorem scores_in_range:
  "0 \<le> score_price_momentum_from_tech t \<and> score_price_momentum_from_tech t \<le> 100
   \<and> 0 \<le> score_volume_flow_from_tech_opt t ops ac
   \<and> score_volume_flow_from_tech_opt t ops ac \<le> 100
   \<and> (\<forall>v. score_fundamentals fd = Inr v \<longrightarrow> 0 \<le> v \<and> v \<le> 100)
   \<and> 0 \<le> institutional_flow_proxy t ops \<and> institutional_flow_proxy t ops \<le> 100
   \<and> (0 \<le> p \<and> p \<le> 100 \<and> 0 \<le> f \<and> f \<le> 100 \<and> 0 \<le> fu \<and> fu \<le> 100 \<and> 0 \<le> i \<and> i \<le> 100
        \<longrightarrow> 0 \<le> blend_final_score ac p f fu i \<and> blend_final_score ac p f fu i \<le> 100)"
  using price_momentum_bounds [of t] volume_flow_bounds [of t ops ac]
    fundamentals_bounds [of fd] institutional_bounds [of t ops]
    blend_final_score_bounds [of p f fu i ac]
  by blast

theorem scores_in_range_witness:
  "score_fundamentals sample_fundamentals = Inr 68.5
   \<and> (0::real) \<le> 68.5 \<and> (68.5::real) \<le> 100
   \<and> 0 \<le> score_price_momentum_from_tech dip_tech
   \<and> score_price_momentum_from_tech dip_tech \<le> 100
   \<and> blend_final_score ''EQUITY'' 70 60 68.5 40 = 63.5125
   \<and> 0 \<le> blend_final_score ''EQUITY'' 70 60 68.5 40
   \<and> blend_final_score ''EQUITY'' 70 60 68.5 40 \<le> 100"
proof -
  have fd: "score_fundamentals sample_fundamentals = Inr 68.5" by code_simp
  have bl: "blend_final_score ''EQUITY'' 70 60 68.5 40 = 63.5125" by code_simp
  have h: "(0::real) \<le> 70 \<and> (70::real) \<le> 100 \<and> (0::real) \<le> 60 \<and> (60::real) \<le> 100
           \<and> (0::real) \<le> 68.5 \<and> (68.5::real) \<le> 100 \<and> (0::real) \<le> 40 \<and> (40::real) \<le> 100"
    by simp
  note t = scores_in_range [of dip_tech "compute_options_metrics (Inr []) (Inr sample_chain)"
      "''EQUITY''" sample_fundamentals 70 60 "68.5" 40]
  note t' = t [THEN conjunct2, THEN conjunct2, THEN conjunct2, THEN conjunct2]
  have p: "0 \<le> score_price_momentum_from_tech dip_tech
      \<and> score_price_momentum_from_tech dip_tech \<le> 100"
    using t [THEN conjunct1] t [THEN conjunct2, THEN conjunct1] by (rule conjI)
  have v: "(0::real) \<le> 68.5 \<and> (68.5::real) \<le> 100"
    using t' [THEN conjunct1, THEN spec, THEN mp, OF fd] .
  have b: "0 \<le> blend_final_score ''EQUITY'' 70 60 68.5 40
      \<and> blend_final_score ''EQUITY'' 70 60 68.5 40 \<le> 100"
    using t' [THEN conjunct2, THEN conjunct2, THEN conjunct2, THEN mp, OF h] .
  show ?thesis
    apply (intro conjI)
    apply (rule fd)
    apply (rule v [THEN conjunct1])
    apply (rule v [THEN conjunct2])
    apply (rule p [THEN conjunct1])
    apply (rule p [THEN conjunct2])
    apply (rule bl)
    apply (rule b [THEN conjunct1])
    apply (rule b [THEN conjunct2])
    done
qed

subsection \<open>Price momentum and the RSI\<close>




lemma rsi_score_above_80:
  "80 < r1 \<Longrightarrow> 80 < r2 \<Longrightarrow> rsi_score (Fin r2) k = rsi_score (Fin r1) k"
  by (simp add: rsi_score_def Let_def)














subsection \<open>The RSI when no close fell\<close>

lemma map_filter_map_option:
  "List.map_filter (\<lambda>v. v) (map (map_option f) W) = map f (List.map_filter (\<lambda>v. v) W)"
  by (induction W) (auto simp add: List.map_filter_simps split: option.splits)

lemma window_mean_map:
  "window_mean mp (map (map_option f) W) =
     (let vals = List.map_filter (\<lambda>v. v) W
      in if vals \<noteq> [] \<and> mp \<le> length vals
         then Some (sum_list (map f vals) / real (length vals)) else None)"
  by (simp add: window_mean_def map_filter_map_option Let_def)

lemma sum_list_map_nonneg: "(\<And>x. 0 \<le> f x) \<Longrightarrow> 0 \<le> sum_list (map f xs)"
  for f :: "real \<Rightarrow> real"
  by (induction xs) (auto intro: add_nonneg_nonneg)

lemma length_rolling_mean: "length (rolling_mean w mp xs) = length xs"
  by (simp add: rolling_mean_def)

lemma length_diff: "length (diff xs) = length xs"
  by (cases xs) (simp_all add: diff_def)

lemma diff_nonempty: "c \<noteq> [] \<Longrightarrow> diff c \<noteq> []"
  by (cases c) (simp_all add: diff_def)

lemma length_ma_up: "length (ma_up c p) = length c"
  by (simp add: ma_up_def Let_def length_rolling_mean length_diff)

lemma length_ma_down: "length (ma_down c p) = length c"
  by (simp add: ma_down_def Let_def length_rolling_mean length_diff)

lemma length_rsi: "length (rsi c p) = length c"
  by (simp add: rsi_def length_ma_up length_ma_down)

lemma last_rolling_mean:
  "xs \<noteq> [] \<Longrightarrow> last (rolling_mean w mp xs) = window_mean mp (last_n w xs)"
  by (simp add: rolling_mean_def last_map)

lemma last_n_map: "last_n n (map f xs) = map f (last_n n xs)"
  by (simp add: last_n_def drop_map)

lemma last_ma_up:
  "c \<noteq> [] \<Longrightarrow>
     last (ma_up c p) = window_mean p (map (map_option (\<lambda>d. max d 0)) (last_n p (diff c)))"
  by (simp add: ma_up_def Let_def last_rolling_mean last_n_map diff_nonempty)

lemma last_ma_down:
  "c \<noteq> [] \<Longrightarrow>
     last (ma_down c p)
       = window_mean p (map (map_option (\<lambda>d. -1 * min d 0)) (last_n p (diff c)))"
  by (simp add: ma_down_def Let_def last_rolling_mean last_n_map diff_nonempty)

lemma ma_up_defined:
  assumes "c \<noteq> []" "last (ma_down c p) = Some d"
  shows "\<exists>u. 0 \<le> u \<and> last (ma_up c p) = Some u"
proof -
  let ?vals = "List.map_filter (\<lambda>v. v) (last_n p (diff c))"
  have v: "?vals \<noteq> [] \<and> p \<le> length ?vals"
    using assms by (simp add: last_ma_down window_mean_map Let_def split: if_splits)
  have "0 \<le> sum_list (map (\<lambda>d. max d 0) ?vals)" by (rule sum_list_map_nonneg) simp
  then have "0 \<le> sum_list (map (\<lambda>d. max d 0) ?vals) / real (length ?vals)" by simp
  then show ?thesis using v assms(1) by (simp add: last_ma_up window_mean_map Let_def)
qed

lemma last_map2:
  "length xs = length ys \<Longrightarrow> xs \<noteq> [] \<Longrightarrow> last (map2 f xs ys) = f (last xs) (last ys)"
  by (cases xs rule: rev_cases; cases ys rule: rev_cases) simp_all

lemma last_rsi:
  assumes "c \<noteq> []"
  shows "last (rsi c p) = rsi_of_averages (last (ma_up c p)) (last (ma_down c p))"
proof -
  have "ma_up c p \<noteq> []" using assms by (metis length_ma_up length_0_conv)
  then show ?thesis by (simp add: rsi_def last_map2 length_ma_up length_ma_down)
qed

lemma rsi_of_averages_zero_down:
  "0 \<le> u \<Longrightarrow> rsi_of_averages (Some u) (Some 0) = (if u = 0 then NaN else Fin 100)"
  by (simp add: rsi_of_averages_def fsub_def Let_def)

lemma rsi_no_losses:
  assumes c: "c \<noteq> []" and d: "last (ma_down c p) = Some 0"
  shows "last (rsi c p) = (if last (ma_up c p) = Some 0 then NaN else Fin 100)"
proof -
  obtain u where u: "0 \<le> u" "last (ma_up c p) = Some u" using ma_up_defined [OF c d] by blast
  show ?thesis using u d by (simp add: last_rsi [OF c] rsi_of_averages_zero_down)
qed

lemma last_all_nan:
  assumes "r \<noteq> []" "list_all isnan r"
  shows "last r = NaN"
proof -
  have "isnan (last r)" using assms by (simp add: list_all_iff)
  then show ?thesis by (cases "last r") simp_all
qed

lemma rsi_score_100: "rsi_score (Fin 100) k = (if k \<noteq> 0 then 0.24 else 0.2)"
  by (simp add: rsi_score_def Let_def)

lemma rsi_score_nan: "rsi_score NaN k = 0.5"
  by (simp add: rsi_score_def)

subsection \<open>The technical metrics bundle\<close>

lemma compute_obv_nonempty: "bars hist \<noteq> [] \<Longrightarrow> \<exists>obv. compute_obv hist = Inr obv"
  by (cases "bars hist") (simp_all add: compute_obv_def)

lemma tech_defined:
  assumes a: "bars hist \<noteq> []"
  shows "\<exists>t. compute_technical_metrics_from_hist hist = Inr t"
proof -
  obtain obv where o: "compute_obv hist = Inr obv" using compute_obv_nonempty [OF a] by blast
  show ?thesis
    unfolding compute_technical_metrics_from_hist_def Let_def o
    using a by (simp only: map_is_Nil_conv if_False sum.case case_prod_beta) blast
qed

lemma tech_empty:
  assumes "bars hist = []"
  shows "compute_technical_metrics_from_hist hist
           = Inl (Exn ''single positional indexer is out-of-bounds'')"
  unfolding compute_technical_metrics_from_hist_def Let_def
  using assms by (simp only: list.map simp_thms if_True)

lemma tech_nonempty:
  assumes "compute_technical_metrics_from_hist hist = Inr t"
  shows "bars hist \<noteq> []"
proof
  assume "bars hist = []"
  then show False using assms tech_empty [of hist] by simp
qed

lemma tech_fields:
  assumes t: "compute_technical_metrics_from_hist hist = Inr t"
  shows "last_close t = last (map Close (bars hist))"
    and "tech_rsi t = last (rsi (map Close (bars hist)) RSI_PERIOD)"
    and "ema_cross t = of_bool (last (ema (map Close (bars hist)) EMA_FAST)
                                  > last (ema (map Close (bars hist)) EMA_SLOW))"
    and "price_above_ema_slow t = of_bool (last (map Close (bars hist))
                                  > last (ema (map Close (bars hist)) EMA_SLOW))"
    and "rsi_rising t =
           (if length (rsi (map Close (bars hist)) RSI_PERIOD) \<ge> 3
            then of_bool (fgt (last (rsi (map Close (bars hist)) RSI_PERIOD))
                   (rsi (map Close (bars hist)) RSI_PERIOD
                      ! (length (rsi (map Close (bars hist)) RSI_PERIOD) - 3)))
            else 0)"
proof -
  have a: "bars hist \<noteq> []" using t by (rule tech_nonempty)
  obtain obv where o: "compute_obv hist = Inr obv" using compute_obv_nonempty [OF a] by blast
  have r: "(if \<not> list_all isnan (rsi (map Close (bars hist)) RSI_PERIOD)
            then last (rsi (map Close (bars hist)) RSI_PERIOD) else NaN)
           = last (rsi (map Close (bars hist)) RSI_PERIOD)"
  proof (cases "list_all isnan (rsi (map Close (bars hist)) RSI_PERIOD)")
    case True
    have "rsi (map Close (bars hist)) RSI_PERIOD \<noteq> []"
      using a by (metis length_rsi length_map length_0_conv)
    then show ?thesis using True last_all_nan by simp
  next
    case False
    then show ?thesis by simp
  qed
  note u = t [unfolded compute_technical_metrics_from_hist_def Let_def o]
  show "last_close t = last (map Close (bars hist))"
    using u a
    apply (simp only: map_is_Nil_conv if_False sum.case case_prod_beta sum.inject)
    apply (drule arg_cong [where f = last_close])
    apply (simp only: tech.select_convs r)
    done
  show "tech_rsi t = last (rsi (map Close (bars hist)) RSI_PERIOD)"
    using u a
    apply (simp only: map_is_Nil_conv if_False sum.case case_prod_beta sum.inject)
    apply (drule arg_cong [where f = tech_rsi])
    apply (simp only: tech.select_convs r)
    done
  show "ema_cross t = of_bool (last (ema (map Close (bars hist)) EMA_FAST)
                                  > last (ema (map Close (bars hist)) EMA_SLOW))"
    using u a
    apply (simp only: map_is_Nil_conv if_False sum.case case_prod_beta sum.inject)
    apply (drule arg_cong [where f = ema_cross])
    apply (simp only: tech.select_convs r)
    done
  show "price_above_ema_slow t = of_bool (last (map Close (bars hist))
                                  > last (ema (map Close (bars hist)) EMA_SLOW))"
    using u a
    apply (simp only: map_is_Nil_conv if_False sum.case case_prod_beta sum.inject)
    apply (drule arg_cong [where f = price_above_ema_slow])
    apply (simp only: tech.select_convs r)
    done
  show "rsi_rising t =
           (if length (rsi (map Close (bars hist)) RSI_PERIOD) \<ge> 3
            then of_bool (fgt (last (rsi (map Close (bars hist)) RSI_PERIOD))
                   (rsi (map Close (bars hist)) RSI_PERIOD
                      ! (length (rsi (map Close (bars hist)) RSI_PERIOD) - 3)))
            else 0)"
    using u a
    apply (simp only: map_is_Nil_conv if_False sum.case case_prod_beta sum.inject)
    apply (drule arg_cong [where f = rsi_rising])
    apply (simp only: tech.select_convs r)
    done
qed

lemma rsi_rising_frame:
  "rsi (map Close (bars rising_frame)) RSI_PERIOD =
     [NaN, NaN, NaN, NaN, NaN, NaN, NaN, NaN, NaN, NaN, NaN, NaN, NaN, NaN, Fin 100]"
  by code_simp

lemma ma_down_rising_frame:
  "last (ma_down (map Close (bars rising_frame)) RSI_PERIOD) = Some 0"
  by code_simp

lemma tech_rising_frame:
  "\<exists>t. compute_technical_metrics_from_hist rising_frame = Inr t
       \<and> tech_rsi t = Fin 100 \<and> rsi_rising t = 0"
proof -
  have "bars rising_frame \<noteq> []" by (simp add: rising_frame_def frame_of_def)
  then obtain t where t: "compute_technical_metrics_from_hist rising_frame = Inr t"
    using tech_defined by blast
  have "tech_rsi t = Fin 100" using tech_fields(2) [OF t] by (simp add: rsi_rising_frame)
  moreover have "rsi_rising t = 0" using tech_fields(5) [OF t] by (simp add: rsi_rising_frame)
  ultimately show ?thesis using t by blast
qed

text \<open>
  C2, as stated, fails: on fifteen closes that rise by one each day the average of the
  negative deltas over the RSI period is 0, the RSI is 100 (the element-wise division by
  zero gives \<^verbatim>\<open>inf\<close>, and \<^verbatim>\<open>100 - 100/(1 + inf)\<close> is 100), and the scorer applies the
  RSI mapping: the RSI sub-score is 0.2, not the neutral 0.5.
\<close>

theorem rsi_available_without_losses_counterexample:
  "last (ma_down (map Close (bars rising_frame)) RSI_PERIOD) = Some 0
   \<and> map_sum id tech_rsi (compute_technical_metrics_from_hist rising_frame) = Inr (Fin 100)
   \<and> map_sum id (\<lambda>t. rsi_score (tech_rsi t) (rsi_rising t))
        (compute_technical_metrics_from_hist rising_frame) = Inr 0.2
   \<and> rsi_score (Fin 100) 0 \<noteq> 0.5"
proof -
  obtain t where t: "compute_technical_metrics_from_hist rising_frame = Inr t"
    and r: "tech_rsi t = Fin 100" and k: "rsi_rising t = 0"
    using tech_rising_frame by blast
  have s: "rsi_score (Fin 100) 0 = 0.2" by (simp add: rsi_score_100)
  have 1: "map_sum id tech_rsi (compute_technical_metrics_from_hist rising_frame)
             = Inr (Fin 100)"
    by (simp only: t map_sum.simps r)
  have 2: "map_sum id (\<lambda>t. rsi_score (tech_rsi t) (rsi_rising t))
        (compute_technical_metrics_from_hist rising_frame) = Inr 0.2"
    by (simp only: t map_sum.simps r k s)
  have 3: "rsi_score (Fin 100) 0 \<noteq> 0.5" unfolding s by simp
  show ?thesis using ma_down_rising_frame 1 2 3 by (intro conjI)
qed

text \<open>
  C2, amended. For every close series in which the average of the negative deltas over the
  RSI period is 0: if the average of the positive deltas is 0 as well, the RSI is
  unavailable and the scorer uses the neutral sub-score 0.5; otherwise the RSI is 100 and
  the scorer uses the RSI mapping, which gives 0.2, or 0.24 when the RSI is rising.
\<close>

theorem rsi_when_no_losses:
  assumes "compute_technical_metrics_from_hist hist = Inr t"
    and "last (ma_down (map Close (bars hist)) RSI_PERIOD) = Some 0"
  shows "(if last (ma_up (map Close (bars hist)) RSI_PERIOD) = Some 0
          then tech_rsi t = NaN \<and> rsi_score (tech_rsi t) (rsi_rising t) = 0.5
          else tech_rsi t = Fin 100
             \<and> rsi_score (tech_rsi t) (rsi_rising t)
                 = (if rsi_rising t \<noteq> 0 then 0.24 else 0.2))"
proof -
  have c: "map Close (bars hist) \<noteq> []" using tech_nonempty [OF assms(1)] by simp
  show ?thesis
    using rsi_no_losses [OF c assms(2)] tech_fields(2) [OF assms(1)]
    by (simp add: rsi_score_100 rsi_score_nan)
qed

theorem rsi_when_no_losses_witness:
  "last (ma_down (map Close (bars flat_frame)) RSI_PERIOD) = Some 0
   \<and> last (ma_up (map Close (bars flat_frame)) RSI_PERIOD) = Some 0
   \<and> map_sum id tech_rsi (compute_technical_metrics_from_hist flat_frame) = Inr NaN
   \<and> map_sum id (\<lambda>t. rsi_score (tech_rsi t) (rsi_rising t))
        (compute_technical_metrics_from_hist flat_frame) = Inr 0.5
   \<and> last (ma_down (map Close (bars rising_frame)) RSI_PERIOD) = Some 0
   \<and> last (ma_up (map Close (bars rising_frame)) RSI_PERIOD) = Some 1
   \<and> map_sum id tech_rsi (compute_technical_metrics_from_hist rising_frame) = Inr (Fin 100)"
proof -
  have fd: "last (ma_down (map Close (bars flat_frame)) RSI_PERIOD) = Some 0"
    and fu: "last (ma_up (map Close (bars flat_frame)) RSI_PERIOD) = Some 0"
    and rd: "last (ma_down (map Close (bars rising_frame)) RSI_PERIOD) = Some 0"
    and ru: "last (ma_up (map Close (bars rising_frame)) RSI_PERIOD) = Some 1"
    by code_simp+
  obtain tf where tf: "compute_technical_metrics_from_hist flat_frame = Inr tf"
    using tech_defined [of flat_frame] by (auto simp add: flat_frame_def frame_of_def)
  obtain tr where tr: "compute_technical_metrics_from_hist rising_frame = Inr tr"
    using tech_defined [of rising_frame] by (auto simp add: rising_frame_def frame_of_def)
  have f: "tech_rsi tf = NaN \<and> rsi_score (tech_rsi tf) (rsi_rising tf) = 0.5"
    using rsi_when_no_losses [OF tf fd] by (simp add: fu rsi_score_nan)
  have r: "tech_rsi tr = Fin 100
             \<and> rsi_score (tech_rsi tr) (rsi_rising tr) = (if rsi_rising tr \<noteq> 0 then 0.24 else 0.2)"
    using rsi_when_no_losses [OF tr rd] by (simp add: ru rsi_score_100)
  have f1: "map_sum id tech_rsi (compute_technical_metrics_from_hist flat_frame) = Inr NaN"
    by (simp only: tf map_sum.simps f [THEN conjunct1])
  have f2: "map_sum id (\<lambda>t. rsi_score (tech_rsi t) (rsi_rising t))
        (compute_technical_metrics_from_hist flat_frame) = Inr 0.5"
    by (simp only: tf map_sum.simps f [THEN conjunct2])
  have r1: "map_sum id tech_rsi (compute_technical_metrics_from_hist rising_frame) = Inr (Fin 100)"
    by (simp only: tr map_sum.simps r [THEN conjunct1])
  show ?thesis
    apply (intro conjI)
    apply (rule fd)
    apply (rule fu)
    apply (rule f1)
    apply (rule f2)
    apply (rule rd)
    apply (rule ru)
    apply (rule r1)
    done
qed

subsection \<open>Rounding to binary64\<close>

text \<open>
  \<open>float64 x\<close> is a double, a number with a mantissa of 53 bits in the binade of \<open>x\<close>,
  and no double of that binade is nearer to \<open>x\<close>: the error is at most half a unit in
  the last place.
\<close>

lemma bit_len_0: "bit_len 0 = 0" by (subst bit_len.simps) simp
lemma bit_len_pos: "0 < n \<Longrightarrow> bit_len n = Suc (bit_len (n div 2))"
  by (subst bit_len.simps) simp

lemma bit_len_bounds: "0 < n \<Longrightarrow> 2 ^ (bit_len n - 1) \<le> n \<and> n < 2 ^ bit_len n"
proof (induction n rule: less_induct)
  case (less n)
  show ?case
  proof (cases "n div 2 = 0")
    case True
    then have "n = 1" using less(2) by linarith
    then show ?thesis by (simp add: bit_len_pos bit_len_0)
  next
    case False
    then have p: "0 < n div 2" by simp
    have "n div 2 < n" using less(2) by simp
    then have ih: "2 ^ (bit_len (n div 2) - 1) \<le> n div 2 \<and> n div 2 < 2 ^ bit_len (n div 2)"
      using less(1) p by blast
    obtain k where k: "bit_len (n div 2) = Suc k" using bit_len_pos [OF p] by blast
    have e: "bit_len n = Suc (Suc k)" using bit_len_pos [OF less(2)] k by simp
    have a: "2 * (n div 2) \<le> n" by simp
    have b: "n < 2 * (n div 2) + 2" by linarith
    have i1: "2 ^ k \<le> n div 2" and i2: "n div 2 < 2 * 2 ^ k" using ih k by simp_all
    have "2 * 2 ^ k \<le> n" using i1 a by linarith
    then have "2 ^ Suc k \<le> n" by simp
    moreover have "n < 2 * (2 * 2 ^ k)" using i2 b by linarith
    then have "n < 2 ^ Suc (Suc k)" by simp
    ultimately show ?thesis using e by simp
  qed
qed

lemma round_half_even_error: "\<bar>of_int (round_half_even q) - q\<bar> \<le> 1 / 2"
proof -
  define d where "d = q - of_int \<lfloor>q\<rfloor>"
  have d: "0 \<le> d" "d < 1" unfolding d_def by linarith+
  have q: "q = of_int \<lfloor>q\<rfloor> + d" unfolding d_def by simp
  consider (lo) "d < 1 / 2" | (hi) "1 / 2 < d" | (tie) "d = 1 / 2" by linarith
  then show ?thesis
  proof cases
    case lo
    then have "round_half_even q = \<lfloor>q\<rfloor>"
      unfolding round_half_even_def Let_def d_def [symmetric] by simp
    then show ?thesis using d lo q by simp
  next
    case hi
    then have "round_half_even q = \<lfloor>q\<rfloor> + 1"
      unfolding round_half_even_def Let_def d_def [symmetric] by simp
    then show ?thesis using d hi q by simp
  next
    case tie
    then have "round_half_even q = \<lfloor>q\<rfloor> \<or> round_half_even q = \<lfloor>q\<rfloor> + 1"
      unfolding round_half_even_def Let_def d_def [symmetric] by simp
    then show ?thesis using tie q by auto
  qed
qed

lemma ulp_powr:
  "(if 52 \<le> e then 2 ^ nat (e - 52) else 1 / 2 ^ nat (52 - e)) = (2::real) powr real_of_int (e - 52)"
proof (cases "52 \<le> e")
  case True
  then have "(2::real) powr real_of_int (e - 52) = 2 powr real (nat (e - 52))" by simp
  also have "\<dots> = 2 ^ nat (e - 52)" by (simp add: powr_realpow)
  finally show ?thesis using True by simp
next
  case False
  then have "(2::real) powr real_of_int (e - 52) = 2 powr (- real (nat (52 - e)))" by simp
  also have "\<dots> = 1 / 2 powr real (nat (52 - e))" by (simp only: powr_minus_divide)
  also have "\<dots> = 1 / 2 ^ nat (52 - e)" by (simp add: powr_realpow)
  finally show ?thesis using False by simp
qed

lemma float_exponent_bounds:
  assumes "0 < a"
  shows "2 powr real_of_int (float_exponent a) \<le> a
       \<and> a < 2 powr real_of_int (float_exponent a + 1)"
proof (cases "1 \<le> a")
  case True
  define n where "n = nat \<lfloor>a\<rfloor>"
  have n: "0 < n" "real n \<le> a" "a < real n + 1" using True unfolding n_def by linarith+
  obtain k where k: "bit_len n = Suc k" using bit_len_pos [OF n(1)] by blast
  have b: "2 ^ k \<le> n" "n < 2 ^ Suc k" using bit_len_bounds [OF n(1)] k by simp_all
  have e: "float_exponent a = int k" using True k by (simp add: float_exponent_def n_def)
  have "(2::real) ^ k \<le> real n" using b(1) by (metis of_nat_le_iff of_nat_numeral of_nat_power)
  then have lo: "(2::real) ^ k \<le> a" using n(2) by linarith
  have "n + 1 \<le> 2 ^ Suc k" using b(2) by simp
  then have "real (n + 1) \<le> 2 ^ Suc k" by (metis of_nat_le_iff of_nat_numeral of_nat_power)
  then have hi: "a < 2 ^ Suc k" using n(3) by simp
  have p1: "(2::real) powr real_of_int (int k) = 2 ^ k" by (simp add: powr_realpow)
  have p2: "(2::real) powr real_of_int (int k + 1) = 2 ^ Suc k"
    using powr_realpow [of "2::real" "Suc k"] by (simp add: add.commute)
  show ?thesis unfolding e p1 p2 using lo hi by simp
next
  case False
  define y where "y = 1 / a"
  have y: "1 < y" using False assms unfolding y_def by simp
  define n where "n = nat (\<lceil>y\<rceil> - 1)"
  have c: "2 \<le> \<lceil>y\<rceil>" using y by linarith
  have n: "0 < n" "real n < y" "y \<le> real n + 1" using c unfolding n_def by linarith+
  obtain k where k: "bit_len n = Suc k" using bit_len_pos [OF n(1)] by blast
  have b: "2 ^ k \<le> n" "n < 2 ^ Suc k" using bit_len_bounds [OF n(1)] k by simp_all
  have e: "float_exponent a = - int (Suc k)"
    using False k by (simp add: float_exponent_def n_def y_def)
  have "(2::real) ^ k \<le> real n" using b(1) by (metis of_nat_le_iff of_nat_numeral of_nat_power)
  then have lo: "(2::real) ^ k < y" using n(2) by linarith
  have "n + 1 \<le> 2 ^ Suc k" using b(2) by simp
  then have "real (n + 1) \<le> 2 ^ Suc k" by (metis of_nat_le_iff of_nat_numeral of_nat_power)
  then have hi: "y \<le> 2 ^ Suc k" using n(3) by simp
  have a: "a = 1 / y" unfolding y_def by simp
  have ypos: "0 < y" using y by simp
  have "1 / 2 ^ Suc k \<le> 1 / y" using hi ypos by (simp add: frac_le)
  then have lo': "1 / 2 ^ Suc k \<le> a" unfolding a .
  have "1 / y < 1 / 2 ^ k" using lo by (simp add: frac_less2)
  then have hi': "a < 1 / 2 ^ k" unfolding a .
  have p1: "(2::real) powr real_of_int (- int (Suc k)) = 1 / 2 ^ Suc k"
    using powr_minus_divide [of "2::real" "real (Suc k)"] powr_realpow [of "2::real" "Suc k"]
    by simp
  have p2: "(2::real) powr real_of_int (- int (Suc k) + 1) = 1 / 2 ^ k"
    using powr_minus_divide [of "2::real" "real k"] powr_realpow [of "2::real" k]
    by simp
  show ?thesis unfolding e p1 p2 using lo' hi' by simp
qed

lemma float64_nearest:
  assumes "x \<noteq> 0"
  shows "\<bar>float64 x - x\<bar> \<le> 2 powr real_of_int (float_exponent \<bar>x\<bar> - 53)
       \<and> \<bar>float64 x - x\<bar> \<le> \<bar>x\<bar> / 2 ^ 53"
proof -
  define a where "a = \<bar>x\<bar>"
  define e where "e = float_exponent a"
  define u where "u = (2::real) powr real_of_int (e - 52)"
  define m where "m = round_half_even (a / u)"
  have a: "0 < a" using assms unfolding a_def by simp
  have u: "0 < u" unfolding u_def by simp
  have f: "float64 x = sgn x * of_int m * u"
    using assms unfolding float64_def Let_def ulp_powr m_def u_def e_def a_def by simp
  have x: "x = sgn x * a" unfolding a_def by (simp add: sgn_real_def)
  have s: "\<bar>sgn x\<bar> = 1" using assms by (simp add: sgn_real_def)
  have "float64 x - x = sgn x * (of_int m * u - a)"
    by (subst x) (simp add: f algebra_simps)
  then have d: "\<bar>float64 x - x\<bar> = \<bar>of_int m * u - a\<bar>" using s by (simp add: abs_mult)
  have "of_int m * u - a = (of_int m - a / u) * u" using u by (simp add: field_simps)
  then have "\<bar>of_int m * u - a\<bar> = \<bar>of_int m - a / u\<bar> * u" using u by (simp add: abs_mult)
  also have "\<dots> \<le> (1 / 2) * u"
    using round_half_even_error [of "a / u"] u unfolding m_def by (intro mult_right_mono) simp_all
  finally have h: "\<bar>float64 x - x\<bar> \<le> u / 2" unfolding d by simp
  have u2: "u / 2 = 2 powr real_of_int (e - 53)"
  proof -
    have "real_of_int (e - 53) = real_of_int (e - 52) - 1" by simp
    then have "(2::real) powr real_of_int (e - 53) = 2 powr real_of_int (e - 52) / 2 powr 1"
      by (simp only: powr_diff)
    then show ?thesis unfolding u_def by simp
  qed
  have u3: "u = 2 powr real_of_int e / 2 ^ 52"
  proof -
    have "real_of_int (e - 52) = real_of_int e - real (52::nat)" by simp
    then have "(2::real) powr real_of_int (e - 52) = 2 powr real_of_int e / 2 powr real (52::nat)"
      by (simp only: powr_diff)
    then show ?thesis unfolding u_def by (simp only: powr_realpow zero_less_numeral)
  qed
  have "2 powr real_of_int e \<le> a" using float_exponent_bounds [OF a] unfolding e_def by simp
  then have "u \<le> a / 2 ^ 52" unfolding u3 by (simp add: divide_right_mono)
  then have g: "u / 2 \<le> a / 2 ^ 53" by simp
  have 1: "\<bar>float64 x - x\<bar> \<le> 2 powr real_of_int (e - 53)" using h unfolding u2 .
  have 2: "\<bar>float64 x - x\<bar> \<le> a / 2 ^ 53" using h g by (rule order_trans)
  show ?thesis using 1 2 unfolding e_def a_def by (rule conjI)
qed

lemma round_half_even_between:
  assumes "of_int l \<le> q" "q < of_int h"
  shows "l \<le> round_half_even q \<and> round_half_even q \<le> h"
proof -
  have f: "l \<le> \<lfloor>q\<rfloor>" "\<lfloor>q\<rfloor> < h" using assms by linarith+
  have "round_half_even q = \<lfloor>q\<rfloor> \<or> round_half_even q = \<lfloor>q\<rfloor> + 1"
    unfolding round_half_even_def Let_def by simp
  then show ?thesis using f by auto
qed

lemma float64_mantissa:
  assumes "x \<noteq> 0"
  shows "\<exists>m. float64 x = sgn x * of_int m * 2 powr real_of_int (float_exponent \<bar>x\<bar> - 52)
           \<and> 2 ^ 52 \<le> m \<and> m \<le> 2 ^ 53
           \<and> m = round_half_even (\<bar>x\<bar> / 2 powr real_of_int (float_exponent \<bar>x\<bar> - 52))"
proof -
  define a where "a = \<bar>x\<bar>"
  define e where "e = float_exponent a"
  define u where "u = (2::real) powr real_of_int (e - 52)"
  define m where "m = round_half_even (a / u)"
  have a: "0 < a" using assms unfolding a_def by simp
  have u: "0 < u" unfolding u_def by simp
  have f: "float64 x = sgn x * of_int m * u"
    using assms unfolding float64_def Let_def ulp_powr m_def u_def e_def a_def by simp
  have u3: "2 powr real_of_int e = 2 ^ 52 * u"
  proof -
    have "real_of_int (e - 52) = real_of_int e - real (52::nat)" by simp
    then have "(2::real) powr real_of_int (e - 52) = 2 powr real_of_int e / 2 powr real (52::nat)"
      by (simp only: powr_diff)
    then show ?thesis unfolding u_def by (simp only: powr_realpow zero_less_numeral) simp
  qed
  have u4: "2 powr real_of_int (e + 1) = 2 ^ 53 * u"
  proof -
    have "real_of_int (e + 1) = real_of_int e + 1" by simp
    then have "(2::real) powr real_of_int (e + 1) = 2 powr real_of_int e * 2 powr 1"
      by (simp only: powr_add)
    then show ?thesis unfolding u3 by simp
  qed
  have b: "2 ^ 52 * u \<le> a" "a < 2 ^ 53 * u"
    using float_exponent_bounds [OF a] unfolding e_def [symmetric] u3 u4 by simp_all
  have "of_int (2 ^ 52) \<le> a / u" "a / u < of_int (2 ^ 53)"
    using b u by (simp_all add: field_simps)
  then have "2 ^ 52 \<le> m \<and> m \<le> 2 ^ 53" unfolding m_def by (rule round_half_even_between)
  then show ?thesis using f unfolding m_def u_def e_def a_def by blast
qed

subsection \<open>Buy-the-dip detection\<close>

lemma dip_tech_computed: "compute_technical_metrics_from_hist dip_frame = Inr dip_tech"
  by code_simp

lemma look_window:
  "(if length bs \<ge> BTD_LOOKBACK_DAYS then last_n BTD_LOOKBACK_DAYS (map Close bs)
    else map Close bs) = drop (length (map Close bs) - 20) (map Close bs)"
  by (simp add: last_n_def BTD_LOOKBACK_DAYS_def)


lemma detect_buy_the_dip_computed:
  assumes t: "compute_technical_metrics_from_hist hist = Inr t"
  shows "detect_buy_the_dip (Inr hist) =
          (if ema_cross t = 1 \<and> price_above_ema_slow t = 1 then
             (let closes = map Close (bars hist);
                  recent_high = Max (set (drop (length closes - 20) closes));
                  pullback = (if recent_high > 0
                              then float64 (float64 (recent_high - last closes) / recent_high)
                              else 0)
              in Inr (BTD_MIN_PULLBACK \<le> pullback \<and> pullback \<le> BTD_MAX_PULLBACK,
                      Some (Fin (py_round pullback 4)), Some (Fin recent_high)))
           else Inr (False, None, None))"
  by (simp add: detect_buy_the_dip_def t look_window tech_fields(1) [OF t] Let_def
      BTD_REQUIRE_DAILY_UPTREND_def)










subsection \<open>Errors of one ticker\<close>

lemma detect_buy_the_dip_raises_iff:
  "(\<exists>e. detect_buy_the_dip res = Inl e) = (\<exists>hb. res = Inr hb \<and> bars hb = [])"
proof (cases res)
  case (Inl e)
  then show ?thesis by (simp add: detect_buy_the_dip_def)
next
  case (Inr hb)
  show ?thesis
  proof (cases "bars hb = []")
    case True
    then show ?thesis using Inr tech_empty [OF True] by (simp add: detect_buy_the_dip_def)
  next
    case False
    then obtain t where t: "compute_technical_metrics_from_hist hb = Inr t"
      using tech_defined by blast
    show ?thesis using Inr False detect_buy_the_dip_computed [OF t] by (simp add: Let_def)
  qed
qed

lemma score_ticker_succeeds_iff:
  "(\<exists>sc h'. score_ticker w tkr ac h = Inr (sc, h')) =
     ((\<exists>hd. w_hist_daily w = Inr hd \<and> bars hd \<noteq> [])
      \<and> (\<forall>hb. w_btd_hist w = Inr hb \<longrightarrow> bars hb \<noteq> [])
      \<and> w_history_write w = None)"
proof (cases "w_hist_daily w")
  case (Inl e)
  then show ?thesis by (simp add: score_ticker_def)
next
  case (Inr hd)
  show ?thesis
  proof (cases "compute_technical_metrics_from_hist hd")
    case (Inl e)
    then have "bars hd = []" using tech_defined [of hd] by auto
    then show ?thesis using Inr Inl by (simp add: score_ticker_def)
  next
    case t: (Inr t)
    then have ne: "bars hd \<noteq> []" by (rule tech_nonempty)
    show ?thesis
    proof (cases "detect_buy_the_dip (w_btd_hist w)")
      case (Inl e)
      then have "\<exists>hb. w_btd_hist w = Inr hb \<and> bars hb = []"
        using detect_buy_the_dip_raises_iff [of "w_btd_hist w"] by blast
      then show ?thesis using Inr t Inl by (auto simp add: score_ticker_def Let_def)
    next
      case btd: (Inr btd)
      then have b: "\<forall>hb. w_btd_hist w = Inr hb \<longrightarrow> bars hb \<noteq> []"
        using detect_buy_the_dip_raises_iff [of "w_btd_hist w"] by auto
      show ?thesis
      proof (cases "w_history_write w")
        case None
        then show ?thesis using Inr t btd b ne
          by (simp add: score_ticker_def Let_def append_history_row_def)
      next
        case (Some e)
        then show ?thesis using Inr t btd
          by (simp add: score_ticker_def Let_def append_history_row_def)
      qed
    qed
  qed
qed

lemma analyze_ticker_cases:
  "(case analyze_ticker w tkr h of
      (r, h') \<Rightarrow>
        rec_ticker r = tkr \<and>
        ((\<exists>m. rec_error r = Some m) \<and> rec_scores r = None \<and> h' = h
         \<or> rec_error r = None \<and> (\<exists>sc. rec_scores r = Some sc)))"
  by (simp add: analyze_ticker_def Let_def split: sum.splits exn.splits prod.splits)

lemma analyze_ticker_succeeds_iff:
  "(rec_error (fst (analyze_ticker w tkr h)) = None) =
     ((\<exists>sec. w_sector w = Inr sec)
      \<and> (\<exists>hd. w_hist_daily w = Inr hd \<and> bars hd \<noteq> [])
      \<and> (\<forall>hb. w_btd_hist w = Inr hb \<longrightarrow> bars hb \<noteq> [])
      \<and> w_history_write w = None)"
proof (cases "w_sector w")
  case (Inl e)
  then show ?thesis by (cases e) (simp add: analyze_ticker_def Let_def)
next
  case (Inr sec)
  show ?thesis
  proof (cases "score_ticker w tkr (w_asset_class w) h")
    case (Inl e)
    then have "\<not> (\<exists>sc h'. score_ticker w tkr (w_asset_class w) h = Inr (sc, h'))" by simp
    then show ?thesis using Inr Inl unfolding score_ticker_succeeds_iff
      by (cases e) (simp add: analyze_ticker_def Let_def)
  next
    case r: (Inr p)
    then have "\<exists>sc h'. score_ticker w tkr (w_asset_class w) h = Inr (sc, h')"
      by (cases p) simp
    then show ?thesis using Inr r unfolding score_ticker_succeeds_iff
      by (cases p) (simp add: analyze_ticker_def Let_def)
  qed
qed

lemma analyze_ticker_daily_fetch_failure:
  "w_sector w = Inr sec \<Longrightarrow> w_hist_daily w = Inl (Exn m) \<Longrightarrow>
     analyze_ticker w tkr h =
       (\<lparr>rec_ticker = tkr, rec_asset_class = Some (w_asset_class w), rec_sector = Some sec,
         rec_scores = None, rec_error = Some m\<rparr>, h)"
  by (simp add: analyze_ticker_def score_ticker_def Let_def)

lemma analyze_rows_append:
  "analyze_rows (xs @ ys) h =
     (case analyze_rows xs h of
        (r1, h1) \<Rightarrow> (case analyze_rows ys h1 of (r2, h2) \<Rightarrow> (r1 @ r2, h2)))"
  by (induction xs arbitrary: h) (auto split: prod.splits)

lemma length_analyze_rows: "length (fst (analyze_rows tws h)) = length tws"
proof (induction tws arbitrary: h)
  case Nil
  then show ?case by simp
next
  case (Cons a tws)
  obtain tkr w where a: "a = (tkr, w)" by (cases a)
  obtain r h' where r: "analyze_ticker w tkr h = (r, h')" by (cases "analyze_ticker w tkr h")
  show ?case using Cons [of h'] a r by (auto split: prod.splits)
qed

lemma tickers_analyze_rows: "map rec_ticker (fst (analyze_rows tws h)) = map fst tws"
proof (induction tws arbitrary: h)
  case Nil
  then show ?case by simp
next
  case (Cons a tws)
  obtain tkr w where a: "a = (tkr, w)" by (cases a)
  obtain r h' where r: "analyze_ticker w tkr h = (r, h')" by (cases "analyze_ticker w tkr h")
  have "rec_ticker r = tkr"
    using analyze_ticker_cases [where w = w and tkr = tkr and h = h] r by simp
  then show ?case using Cons [of h'] a r by (auto split: prod.splits)
qed

lemma rows_analyze_rows:
  "\<forall>r \<in> set (fst (analyze_rows tws h)). (rec_error r = None) = (rec_scores r \<noteq> None)"
proof (induction tws arbitrary: h)
  case Nil
  then show ?case by simp
next
  case (Cons a tws)
  obtain tkr w where a: "a = (tkr, w)" by (cases a)
  obtain r h' where r: "analyze_ticker w tkr h = (r, h')" by (cases "analyze_ticker w tkr h")
  have "(rec_error r = None) = (rec_scores r \<noteq> None)"
    using analyze_ticker_cases [where w = w and tkr = tkr and h = h] r by auto
  then show ?case using Cons [of h'] a r by (auto split: prod.splits)
qed

lemma failing_ticker_isolated:
  assumes "rec_error (fst (analyze_ticker w tkr (snd (analyze_rows pre h)))) \<noteq> None"
  shows "analyze_rows (pre @ (tkr, w) # post) h =
          (take (length pre) (fst (analyze_rows (pre @ post) h))
             @ fst (analyze_ticker w tkr (snd (analyze_rows pre h)))
             # drop (length pre) (fst (analyze_rows (pre @ post) h)),
           snd (analyze_rows (pre @ post) h))"
proof -
  obtain r1 h1 where p: "analyze_rows pre h = (r1, h1)" by (cases "analyze_rows pre h")
  obtain r h' where r: "analyze_ticker w tkr h1 = (r, h')" by (cases "analyze_ticker w tkr h1")
  have "h' = h1"
    using analyze_ticker_cases [where w = w and tkr = tkr and h = h1] r assms p by auto
  moreover have "length r1 = length pre" using length_analyze_rows [of pre h] p by simp
  ultimately show ?thesis using p r by (simp add: analyze_rows_append split: prod.splits)
qed

text \<open>
  C9. \<^verbatim>\<open>analyze_ticker\<close> is total: every outcome of every outside call gives a record
  carrying the ticker. The record has either an error and no scores, the history file
  being left as it was, or no error and the scores. The run is free of error exactly when
  the sector lookup and the primary daily fetch return, the daily history and the history
  of the dip detector (when fetched) have a bar, and the history write succeeds; a raising
  primary daily fetch gives the record with its message as the error. In a batch every
  ticker gets its record, and a ticker whose analysis fails changes nothing for the others:
  their records and the final history are those of the batch without it.
\<close>

theorem analyze_ticker_records_errors:
  "(case analyze_ticker w tkr h of
      (r, h') \<Rightarrow>
        rec_ticker r = tkr \<and>
        ((\<exists>m. rec_error r = Some m) \<and> rec_scores r = None \<and> h' = h
         \<or> rec_error r = None \<and> (\<exists>sc. rec_scores r = Some sc)))
   \<and> (rec_error (fst (analyze_ticker w tkr h)) = None) =
       ((\<exists>sec. w_sector w = Inr sec)
        \<and> (\<exists>hd. w_hist_daily w = Inr hd \<and> bars hd \<noteq> [])
        \<and> (\<forall>hb. w_btd_hist w = Inr hb \<longrightarrow> bars hb \<noteq> [])
        \<and> w_history_write w = None)
   \<and> (w_sector w = Inr sec \<and> w_hist_daily w = Inl (Exn m) \<longrightarrow>
        analyze_ticker w tkr h =
          (\<lparr>rec_ticker = tkr, rec_asset_class = Some (w_asset_class w), rec_sector = Some sec,
            rec_scores = None, rec_error = Some m\<rparr>, h))
   \<and> map rec_ticker (fst (analyze_rows tws h)) = map fst tws
   \<and> (\<forall>r \<in> set (fst (analyze_rows tws h)). (rec_error r = None) = (rec_scores r \<noteq> None))
   \<and> (rec_error (fst (analyze_ticker w tkr (snd (analyze_rows pre h)))) \<noteq> None \<longrightarrow>
        analyze_rows (pre @ (tkr, w) # post) h =
          (take (length pre) (fst (analyze_rows (pre @ post) h))
             @ fst (analyze_ticker w tkr (snd (analyze_rows pre h)))
             # drop (length pre) (fst (analyze_rows (pre @ post) h)),
           snd (analyze_rows (pre @ post) h)))"
proof (intro conjI impI)
  show "case analyze_ticker w tkr h of
      (r, h') \<Rightarrow>
        rec_ticker r = tkr \<and>
        ((\<exists>m. rec_error r = Some m) \<and> rec_scores r = None \<and> h' = h
         \<or> rec_error r = None \<and> (\<exists>sc. rec_scores r = Some sc))"
    by (rule analyze_ticker_cases)
  show "(rec_error (fst (analyze_ticker w tkr h)) = None) =
       ((\<exists>sec. w_sector w = Inr sec)
        \<and> (\<exists>hd. w_hist_daily w = Inr hd \<and> bars hd \<noteq> [])
        \<and> (\<forall>hb. w_btd_hist w = Inr hb \<longrightarrow> bars hb \<noteq> [])
        \<and> w_history_write w = None)"
    by (rule analyze_ticker_succeeds_iff)
  show "analyze_ticker w tkr h =
          (\<lparr>rec_ticker = tkr, rec_asset_class = Some (w_asset_class w), rec_sector = Some sec,
            rec_scores = None, rec_error = Some m\<rparr>, h)"
    if "w_sector w = Inr sec \<and> w_hist_daily w = Inl (Exn m)"
    using that analyze_ticker_daily_fetch_failure by blast
  show "map rec_ticker (fst (analyze_rows tws h)) = map fst tws"
    by (rule tickers_analyze_rows)
  show "\<forall>r \<in> set (fst (analyze_rows tws h)). (rec_error r = None) = (rec_scores r \<noteq> None)"
    by (rule rows_analyze_rows)
  show "analyze_rows (pre @ (tkr, w) # post) h =
          (take (length pre) (fst (analyze_rows (pre @ post) h))
             @ fst (analyze_ticker w tkr (snd (analyze_rows pre h)))
             # drop (length pre) (fst (analyze_rows (pre @ post) h)),
           snd (analyze_rows (pre @ post) h))"
    if "rec_error (fst (analyze_ticker w tkr (snd (analyze_rows pre h)))) \<noteq> None"
    using that by (rule failing_ticker_isolated)
qed

theorem analyze_ticker_records_errors_witness:
  "w_sector failing_world = Inr ''Commodities''
   \<and> w_hist_daily failing_world = Inl (Exn ''No history for GC=F 1d'')
   \<and> analyze_ticker failing_world ''GC=F'' None =
        (\<lparr>rec_ticker = ''GC=F'', rec_asset_class = Some ''COMMODITY'',
          rec_sector = Some ''Commodities'', rec_scores = None,
          rec_error = Some ''No history for GC=F 1d''\<rparr>, None)
   \<and> rec_error (fst (analyze_ticker failing_world ''GC=F'' (snd (analyze_rows [] None))))
        \<noteq> None
   \<and> analyze_rows ([] @ (''GC=F'', failing_world) # [(''GC=F'', sample_world)]) None =
        (fst (analyze_ticker failing_world ''GC=F'' None)
           # fst (analyze_rows [(''GC=F'', sample_world)] None),
         snd (analyze_rows [(''GC=F'', sample_world)] None))
   \<and> map rec_error
         (fst (analyze_rows [(''GC=F'', failing_world), (''GC=F'', sample_world)] None))
        = [Some ''No history for GC=F 1d'', None]
   \<and> rec_error (fst (analyze_ticker sample_world ''GC=F'' None)) = None"
proof -
  have s: "w_sector failing_world = Inr ''Commodities''"
    and d: "w_hist_daily failing_world = Inl (Exn ''No history for GC=F 1d'')"
    and c: "w_asset_class failing_world = ''COMMODITY''"
    by (simp_all add: failing_world_def sample_world_def)
  note t = analyze_ticker_records_errors [where w = failing_world and tkr = "''GC=F''"
      and h = None and sec = "''Commodities''" and m = "''No history for GC=F 1d''"
      and tws = "[(''GC=F'', failing_world), (''GC=F'', sample_world)]" and pre = "[]"
      and post = "[(''GC=F'', sample_world)]"]
  note t2 = t [THEN conjunct2, THEN conjunct2]
  have e: "analyze_ticker failing_world ''GC=F'' None =
        (\<lparr>rec_ticker = ''GC=F'', rec_asset_class = Some ''COMMODITY'',
          rec_sector = Some ''Commodities'', rec_scores = None,
          rec_error = Some ''No history for GC=F 1d''\<rparr>, None)"
    using t2 [THEN conjunct1, THEN mp, OF conjI, OF s d] by (simp only: c)
  have n: "rec_error (fst (analyze_ticker failing_world ''GC=F'' (snd (analyze_rows [] None))))
        \<noteq> None"
    by (simp add: e)
  have i: "analyze_rows ([] @ (''GC=F'', failing_world) # [(''GC=F'', sample_world)]) None =
        (fst (analyze_ticker failing_world ''GC=F'' None)
           # fst (analyze_rows [(''GC=F'', sample_world)] None),
         snd (analyze_rows [(''GC=F'', sample_world)] None))"
    using t2 [THEN conjunct2, THEN conjunct2, THEN conjunct2, THEN mp, OF n] by simp
  have r: "rec_error (fst (analyze_ticker sample_world ''GC=F'' None)) = None"
    by (simp add: sample_world_run)
  have l: "map rec_error
         (fst (analyze_rows [(''GC=F'', failing_world), (''GC=F'', sample_world)] None))
        = [Some ''No history for GC=F 1d'', None]"
    using i by (simp add: e sample_world_run)
  show ?thesis using s d e n i l r by (intro conjI)
qed

end
